theory Spec2Isabelle
  imports Complex_Main
begin

section \<open>Errors raised by the script and the libraries it calls\<close>

text \<open>
  Every exception that the modelled code paths can raise is a constructor.  None of them is
  caught anywhere in \<^verbatim>\<open>main.py\<close>, so each one ends the run.
\<close>

datatype error =
    ShapeMismatch       \<comment> \<open>RuntimeError: operand sizes cannot be broadcast together\<close>
  | DimOutOfRange       \<comment> \<open>IndexError: a reduction names a dimension the tensor lacks\<close>
  | NotOneElement       \<comment> \<open>\<^verbatim>\<open>.item()\<close> on a tensor that does not hold exactly one element\<close>
  | KeyError            \<comment> \<open>a batch dictionary lacks the key\<close>
  | ZeroDivisionError   \<comment> \<open>Python division by zero\<close>
  | ValueError          \<comment> \<open>DataLoader built with a batch size that is not positive\<close>
  | SeedError           \<comment> \<open>a library refuses the seed (ValueError or RuntimeError)\<close>
  | FileNotFoundError   \<comment> \<open>\<^verbatim>\<open>torch.load\<close> or \<^verbatim>\<open>np.save\<close> on a path that cannot be opened\<close>
  | UnpicklingError     \<comment> \<open>\<^verbatim>\<open>torch.load\<close> on a file that is not a checkpoint\<close>
  | StateDictMismatch   \<comment> \<open>strict \<^verbatim>\<open>load_state_dict\<close>: keys or shapes differ\<close>
  | CatSizeMismatch     \<comment> \<open>\<^verbatim>\<open>torch.cat\<close>: no dimensions, or sizes differ after the first\<close>

section \<open>Tensor elements\<close>

text \<open>
  Tensor elements are real numbers, with one extra value for not-a-number.  Rounding,
  overflow and infinities of the machine format are not modelled: arithmetic on numbers is
  exact.  \<open>NaN\<close> is needed because the mean of an empty tensor is not-a-number in the
  tensor library, and it propagates through every operation.
\<close>

datatype fl = Num real | NaN

fun fl_sub :: "fl \<Rightarrow> fl \<Rightarrow> fl" where
  "fl_sub (Num a) (Num b) = Num (a - b)"
| "fl_sub _ _ = NaN"

fun fl_add :: "fl \<Rightarrow> fl \<Rightarrow> fl" where
  "fl_add (Num a) (Num b) = Num (a + b)"
| "fl_add _ _ = NaN"

fun fl_sq :: "fl \<Rightarrow> fl" where
  "fl_sq (Num a) = Num (a * a)"
| "fl_sq NaN = NaN"

fun fl_sqrt :: "fl \<Rightarrow> fl" where
  "fl_sqrt (Num a) = (if a < 0 then NaN else Num (sqrt a))"
| "fl_sqrt NaN = NaN"

definition fl_sum :: "fl list \<Rightarrow> fl" where
  "fl_sum xs = foldr fl_add xs (Num 0)"

text \<open>The mean of a list: the sum divided by the count; not-a-number for no elements.\<close>

definition fl_mean :: "fl list \<Rightarrow> fl" where
  "fl_mean xs =
     (if xs = [] then NaN
      else case fl_sum xs of Num s \<Rightarrow> Num (s / real (length xs)) | NaN \<Rightarrow> NaN)"

text \<open>The 2-norm of a list: the square root of the sum of the squares.\<close>

definition l2_norm :: "fl list \<Rightarrow> fl" where
  "l2_norm xs = fl_sqrt (fl_sum (map fl_sq xs))"

section \<open>Tensors\<close>

text \<open>
  A tensor is its shape and its elements in row-major order.  The shape is kept apart from
  the elements because an empty tensor still has one: \<^verbatim>\<open>torch.tensor([])\<close> has shape
  \<open>[0]\<close>, a batch of no flow fields has shape \<open>[0, 2, 480, 640]\<close>.
\<close>

record tensor =
  shape :: "nat list"
  vals :: "fl list"

definition wf_tensor :: "tensor \<Rightarrow> bool" where
  "wf_tensor t = (length (vals t) = prod_list (shape t))"

text \<open>The \<open>k\<close>-th run of \<open>n\<close> consecutive elements.\<close>

definition block :: "nat \<Rightarrow> nat \<Rightarrow> 'a list \<Rightarrow> 'a list" where
  "block k n xs = take n (drop (k * n) xs)"

subsection \<open>Elementwise operations with broadcasting\<close>

text \<open>
  \<^verbatim>\<open>pred_flow - gt_flow\<close> broadcasts: the shorter shape is padded with ones on the left,
  and two sizes are compatible when they are equal or one of them is one.
\<close>

definition pad_shape :: "nat \<Rightarrow> nat list \<Rightarrow> nat list" where
  "pad_shape r s = replicate (r - length s) 1 @ s"

fun broadcast_shape :: "nat list \<Rightarrow> nat list \<Rightarrow> nat list option" where
  "broadcast_shape [] [] = Some []"
| "broadcast_shape (m # ms) (n # ns) =
     (if m = n \<or> n = 1 then map_option ((#) m) (broadcast_shape ms ns)
      else if m = 1 then map_option ((#) n) (broadcast_shape ms ns)
      else None)"
| "broadcast_shape _ _ = None"

fun broadcast_vals ::
  "(fl \<Rightarrow> fl \<Rightarrow> fl) \<Rightarrow> nat list \<Rightarrow> fl list \<Rightarrow> nat list \<Rightarrow> fl list \<Rightarrow> fl list" where
  "broadcast_vals f [] xs [] ys = map2 f xs ys"
| "broadcast_vals f (m # ms) xs (n # ns) ys =
     (if m = n then
        concat (map (\<lambda>k. broadcast_vals f ms (block k (prod_list ms) xs)
                                         ns (block k (prod_list ns) ys)) [0..<m])
      else if n = 1 then
        concat (map (\<lambda>k. broadcast_vals f ms (block k (prod_list ms) xs) ns ys) [0..<m])
      else
        concat (map (\<lambda>k. broadcast_vals f ms xs ns (block k (prod_list ns) ys)) [0..<n]))"
| "broadcast_vals f _ _ _ _ = []"

definition tensor_sub :: "tensor \<Rightarrow> tensor \<Rightarrow> error + tensor" where
  "tensor_sub a b =
     (let r = max (length (shape a)) (length (shape b));
          sa = pad_shape r (shape a);
          sb = pad_shape r (shape b)
      in case broadcast_shape sa sb of
           None \<Rightarrow> Inl ShapeMismatch
         | Some s \<Rightarrow> Inr \<lparr>shape = s, vals = broadcast_vals fl_sub sa (vals a) sb (vals b)\<rparr>)"

subsection \<open>Reductions\<close>

text \<open>
  Reducing a dimension of size \<open>n\<close> that has \<open>outer\<close> index combinations to its left and
  \<open>inner\<close> to its right: the element \<open>(j, k, i)\<close> sits at \<open>(j * n + k) * inner + i\<close>, and
  the result at \<open>(j, i)\<close> is \<open>f\<close> of the \<open>n\<close> elements \<open>(j, 0, i) \<dots> (j, n - 1, i)\<close>.
\<close>

definition reduce_dim :: "('a list \<Rightarrow> 'b) \<Rightarrow> nat \<Rightarrow> nat \<Rightarrow> nat \<Rightarrow> 'a list \<Rightarrow> 'b list" where
  "reduce_dim f outer n inner xs =
     concat (map (\<lambda>j. map (\<lambda>i. f (map (\<lambda>k. xs ! ((j * n + k) * inner + i)) [0..<n]))
                           [0..<inner])
                 [0..<outer])"

text \<open>\<^verbatim>\<open>torch.norm(t, p=2, dim=1)\<close>\<close>

definition norm_p2_dim1 :: "tensor \<Rightarrow> error + tensor" where
  "norm_p2_dim1 t =
     (case shape t of
        d0 # d1 # rest \<Rightarrow>
          Inr \<lparr>shape = d0 # rest, vals = reduce_dim l2_norm d0 d1 (prod_list rest) (vals t)\<rparr>
      | _ \<Rightarrow> Inl DimOutOfRange)"

text \<open>
  \<^verbatim>\<open>torch.mean(t, dim=(1, 2))\<close>: dimensions 1 and 2 are adjacent, so reducing both is
  reducing one dimension of size \<open>d1 * d2\<close>.
\<close>

definition mean_dim12 :: "tensor \<Rightarrow> error + tensor" where
  "mean_dim12 t =
     (case shape t of
        d0 # d1 # d2 # rest \<Rightarrow>
          Inr \<lparr>shape = d0 # rest,
               vals = reduce_dim fl_mean d0 (d1 * d2) (prod_list rest) (vals t)\<rparr>
      | _ \<Rightarrow> Inl DimOutOfRange)"

text \<open>\<^verbatim>\<open>torch.mean(t, dim=0)\<close>; a tensor of no dimensions accepts \<open>dim=0\<close> and is returned.\<close>

definition mean_dim0 :: "tensor \<Rightarrow> error + tensor" where
  "mean_dim0 t =
     (case shape t of
        d0 # rest \<Rightarrow>
          Inr \<lparr>shape = rest, vals = reduce_dim fl_mean 1 d0 (prod_list rest) (vals t)\<rparr>
      | [] \<Rightarrow> Inr \<lparr>shape = [], vals = [fl_mean (vals t)]\<rparr>)"

section \<open>The end-point error\<close>

text \<open>
  \<^verbatim>\<open>
  def compute_epe_error(pred_flow, gt_flow):
      epe = torch.mean(torch.mean(torch.norm(pred_flow - gt_flow, p=2, dim=1), dim=(1, 2)), dim=0)
      return epe
  \<close>
  The function checks nothing itself: every error comes from the tensor operations.
\<close>

definition compute_epe_error :: "tensor \<Rightarrow> tensor \<Rightarrow> error + tensor" where
  "compute_epe_error pred_flow gt_flow =
     (case tensor_sub pred_flow gt_flow of
        Inl e \<Rightarrow> Inl e
      | Inr d \<Rightarrow>
          (case norm_p2_dim1 d of
             Inl e \<Rightarrow> Inl e
           | Inr n \<Rightarrow>
               (case mean_dim12 n of
                  Inl e \<Rightarrow> Inl e
                | Inr m \<Rightarrow> mean_dim0 m)))"

subsection \<open>The end-point error in the words of the specification\<close>

text \<open>
  The specification describes the loss for two tensors of shape \<open>[B, 2, H, W]\<close>: at every
  pixel the Euclidean norm of the two-component difference vector, averaged over the
  \<open>H \<times> W\<close> pixels of each sample, then averaged over the \<open>B\<close> samples.  These definitions
  follow that description with explicit indices; they are compared with
  \<open>compute_epe_error\<close> below.
\<close>

definition at4 :: "tensor \<Rightarrow> nat \<Rightarrow> nat \<Rightarrow> nat \<Rightarrow> nat \<Rightarrow> fl" where
  "at4 t b c y x =
     (case shape t of
        [B, C, H, W] \<Rightarrow> vals t ! (((b * C + c) * H + y) * W + x)
      | _ \<Rightarrow> NaN)"

definition pixel_epe :: "tensor \<Rightarrow> tensor \<Rightarrow> nat \<Rightarrow> nat \<Rightarrow> nat \<Rightarrow> fl" where
  "pixel_epe p g b y x =
     fl_sqrt (fl_add (fl_sq (fl_sub (at4 p b 0 y x) (at4 g b 0 y x)))
                     (fl_sq (fl_sub (at4 p b 1 y x) (at4 g b 1 y x))))"

definition sample_epe :: "tensor \<Rightarrow> tensor \<Rightarrow> nat \<Rightarrow> nat \<Rightarrow> nat \<Rightarrow> fl" where
  "sample_epe p g H W b =
     fl_mean (concat (map (\<lambda>y. map (\<lambda>x. pixel_epe p g b y x) [0..<W]) [0..<H]))"

definition epe_spec :: "tensor \<Rightarrow> tensor \<Rightarrow> nat \<Rightarrow> nat \<Rightarrow> nat \<Rightarrow> fl" where
  "epe_spec p g B H W = fl_mean (map (sample_epe p g H W) [0..<B])"

section \<open>Seeding\<close>

text \<open>
  The process-wide random state that \<^verbatim>\<open>set_seed\<close> writes: the generators of Python's
  \<^verbatim>\<open>random\<close>, of the tensor library on the processor and on the accelerators, and of the
  array library, and the two switches of the accelerator backend.
\<close>

record 'g rng_env =
  py_random :: "'g"
  torch_cpu :: "'g"
  torch_cuda :: "'g"
  np_random :: "'g"
  cudnn_deterministic :: "bool"
  cudnn_benchmark :: "bool"

text \<open>
  The libraries' seeding functions are not part of the repository: each is a parameter that
  maps the seed to the generator state it produces.  \<^verbatim>\<open>random.seed\<close> takes every
  integer.  The two functions of the tensor library may refuse a seed;
  \<^verbatim>\<open>torch.manual_seed\<close> seeds the generators of all devices, hence the pair.
  \<^verbatim>\<open>np.random.seed\<close> takes the seeds from \<open>0\<close> to \<open>2^32 - 1\<close> and raises ValueError
  for every other integer.
\<close>

record 'g seed_lib =
  random_seed :: "int \<Rightarrow> 'g"
  torch_manual_seed :: "int \<Rightarrow> error + ('g \<times> 'g)"
  cuda_manual_seed_all :: "int \<Rightarrow> error + 'g"
  np_random_seed :: "int \<Rightarrow> 'g"

definition np_seed_ok :: "int \<Rightarrow> bool" where
  "np_seed_ok s = (0 \<le> s \<and> s < 2 ^ 32)"

text \<open>
  \<^verbatim>\<open>
  def set_seed(seed):
      random.seed(seed)
      torch.manual_seed(seed)
      torch.cuda.manual_seed_all(seed)
      torch.backends.cudnn.deterministic = True
      torch.backends.cudnn.benchmark = False
      np.random.seed(seed)
  \<close>
\<close>

definition set_seed :: "'g seed_lib \<Rightarrow> int \<Rightarrow> 'g rng_env \<Rightarrow> error + 'g rng_env" where
  "set_seed L s env =
     (case torch_manual_seed L s of
        Inl e \<Rightarrow> Inl e
      | Inr (g2, g3) \<Rightarrow>
          (case cuda_manual_seed_all L s of
             Inl e \<Rightarrow> Inl e
           | Inr g3' \<Rightarrow>
               if np_seed_ok s
               then Inr (env\<lparr>py_random := random_seed L s, torch_cpu := g2,
                             torch_cuda := g3', cudnn_deterministic := True,
                             cudnn_benchmark := False, np_random := np_random_seed L s\<rparr>)
               else Inl SeedError))"

section \<open>Configuration, batches and data loaders\<close>

text \<open>The options of the configuration that \<^verbatim>\<open>main\<close> reads.\<close>

record config =
  seed :: "int"
  dataset_path :: "string"
  train_batch_size :: "int"
  train_shuffle :: "bool"
  test_batch_size :: "int"
  test_shuffle :: "bool"
  epochs :: "int"
  initial_learning_rate :: "real"
  weight_decay :: "real"

text \<open>A batch is a dictionary from keys to tensors.\<close>

type_synonym batch = "string \<rightharpoonup> tensor"

text \<open>
  \<^verbatim>\<open>DataLoader(dataset, batch_size=..., shuffle=..., collate_fn=..., drop_last=False)\<close>
  over a dataset of samples.
\<close>

record 's data_loader =
  dataset :: "'s list"
  batch_size :: "nat"
  shuffle :: "bool"
  collate_fn :: "'s list \<Rightarrow> batch"
  drop_last :: "bool"

text \<open>
  The constructor refuses a batch size that is not positive, and, when it is to shuffle, a
  dataset of no samples: the random sampler it builds raises ValueError.
\<close>

definition DataLoader ::
  "'s list \<Rightarrow> int \<Rightarrow> bool \<Rightarrow> ('s list \<Rightarrow> batch) \<Rightarrow> bool \<Rightarrow> error + 's data_loader" where
  "DataLoader ds bs sh cf dl =
     (if bs \<le> 0 \<or> (sh \<and> ds = []) then Inl ValueError
      else Inr \<lparr>dataset = ds, batch_size = nat bs, shuffle = sh, collate_fn = cf,
                drop_last = dl\<rparr>)"

text \<open>\<^verbatim>\<open>len(loader)\<close>: the number of batches of one pass.\<close>

definition loader_len :: "'s data_loader \<Rightarrow> nat" where
  "loader_len dl =
     (if drop_last dl then length (dataset dl) div batch_size dl
      else (length (dataset dl) + batch_size dl - 1) div batch_size dl)"

text \<open>
  The order in which one pass visits the samples.  Every pass starts by drawing a base seed
  from the tensor library's generator, shuffling or not: \<open>base_seed g\<close> is the generator
  after that draw.  Without shuffling the order is the order of the dataset.  With
  shuffling the sampler then draws a permutation: \<open>randperm g n\<close> is a parameter that
  returns the permutation, as a function on the indices below \<open>n\<close>, and the advanced
  generator.
\<close>

definition sample_order ::
  "('g \<Rightarrow> 'g) \<Rightarrow> ('g \<Rightarrow> nat \<Rightarrow> (nat \<Rightarrow> nat) \<times> 'g) \<Rightarrow> 's data_loader \<Rightarrow> 'g
     \<Rightarrow> nat list \<times> 'g" where
  "sample_order base_seed randperm dl g =
     (let n = length (dataset dl); g1 = base_seed g
      in if shuffle dl then (map (fst (randperm g1 n)) [0..<n], snd (randperm g1 n))
         else ([0..<n], g1))"

text \<open>Consecutive runs of \<open>bs\<close> indices; the last run may be shorter unless it is dropped.\<close>

definition index_batches :: "nat \<Rightarrow> bool \<Rightarrow> nat list \<Rightarrow> nat list list" where
  "index_batches bs dl idx =
     map (\<lambda>k. block k bs idx)
       [0..<(if dl then length idx div bs else (length idx + bs - 1) div bs)]"

text \<open>One pass over the loader: the batches in order, and the generator after the pass.\<close>

definition loader_iter ::
  "('g \<Rightarrow> 'g) \<Rightarrow> ('g \<Rightarrow> nat \<Rightarrow> (nat \<Rightarrow> nat) \<times> 'g) \<Rightarrow> 's data_loader \<Rightarrow> 'g
     \<Rightarrow> batch list \<times> 'g" where
  "loader_iter base_seed randperm dl g =
     (let (idx, g') = sample_order base_seed randperm dl g
      in (map (\<lambda>b. collate_fn dl (map ((!) (dataset dl)) b))
              (index_batches (batch_size dl) (drop_last dl) idx), g'))"

text \<open>\<^verbatim>\<open>batch[key]\<close>\<close>

definition batch_get :: "batch \<Rightarrow> string \<Rightarrow> error + tensor" where
  "batch_get b k = (case b k of None \<Rightarrow> Inl KeyError | Some t \<Rightarrow> Inr t)"

text \<open>\<^verbatim>\<open>t.item()\<close>: the one element of a tensor, as a Python number.\<close>

definition item :: "tensor \<Rightarrow> error + fl" where
  "item t = (case vals t of [v] \<Rightarrow> Inr v | _ \<Rightarrow> Inl NotOneElement)"

text \<open>Python's \<^verbatim>\<open>total / n\<close> for a number and a count.\<close>

definition py_div :: "fl \<Rightarrow> nat \<Rightarrow> error + fl" where
  "py_div a n =
     (if n = 0 then Inl ZeroDivisionError
      else Inr (case a of Num r \<Rightarrow> Num (r / real n) | NaN \<Rightarrow> NaN))"

section \<open>Collaborators\<close>

text \<open>
  The dataset provider, the collation function and the network are code of the repository
  outside \<^verbatim>\<open>main.py\<close>; the optimizer and the samplers are library code.  Each is a
  parameter of the model, with the interface \<^verbatim>\<open>main.py\<close> uses.
\<close>

datatype RepresentationType = VOXEL | STEPAN

record ('g, 's, 'p, 'o) collab =
  seeding :: "'g seed_lib"
  loader_base_seed :: "'g \<Rightarrow> 'g"
    \<comment> \<open>the generator after a pass over a loader has drawn its base seed\<close>
  randperm :: "'g \<Rightarrow> nat \<Rightarrow> (nat \<Rightarrow> nat) \<times> 'g"
  DatasetProvider :: "string \<Rightarrow> RepresentationType \<Rightarrow> nat \<Rightarrow> nat \<Rightarrow> 's list \<times> 's list"
    \<comment> \<open>path, representation, \<open>delta_t_ms\<close>, \<open>num_bins\<close>; the training and the test dataset\<close>
  train_collate :: "'s list \<Rightarrow> batch"
  EVFlowNet :: "config \<Rightarrow> 'g \<Rightarrow> 'p \<times> 'g"
    \<comment> \<open>construction draws the initial parameters from the tensor library's generator\<close>
  forward :: "bool \<Rightarrow> 'p \<Rightarrow> tensor \<Rightarrow> tensor \<times> batch"
    \<comment> \<open>training mode, parameters, event volume; the flow and the dictionary of auxiliary flows\<close>
  Adam :: "'p \<Rightarrow> real \<Rightarrow> real \<Rightarrow> 'o"
  backward_step :: "'o \<Rightarrow> 'p \<Rightarrow> tensor \<Rightarrow> tensor \<Rightarrow> 'o \<times> 'p"
    \<comment> \<open>\<^verbatim>\<open>zero_grad(); loss.backward(); step()\<close> for the loss of one batch\<close>
  strict_match :: "'p \<Rightarrow> 'p \<Rightarrow> bool"
    \<comment> \<open>the keys and shapes of a state dictionary are those of the model's parameters\<close>

section \<open>The training loop\<close>

text \<open>What the script prints, in order.\<close>

datatype report =
    OnEpoch nat
  | BatchLoss nat fl
  | EpochLoss nat fl
  | ModelSaved string
  | StartTest
  | TestDone

record ('p, 'o) train_state =
  params :: "'p"
  optim :: "'o"
  total_loss :: "fl"
  printed :: "report list"

text \<open>
  The body of the loop over the batches:
  \<^verbatim>\<open>
  event_image = batch["event_volume"].to(device)
  ground_truth_flow = batch["flow_gt"].to(device)
  flow, flow_dict = model(event_image)
  loss = compute_epe_error(flow, ground_truth_flow)
  print(f"batch {i} loss: {loss.item()}")
  optimizer.zero_grad(); loss.backward(); optimizer.step()
  total_loss += loss.item()
  \<close>
\<close>

definition train_step ::
  "('g, 's, 'p, 'o) collab \<Rightarrow> nat \<times> batch \<Rightarrow> ('p, 'o) train_state
     \<Rightarrow> error + ('p, 'o) train_state" where
  "train_step C ib st =
     (case batch_get (snd ib) ''event_volume'' of
        Inl e \<Rightarrow> Inl e
      | Inr event_image \<Rightarrow>
          (case batch_get (snd ib) ''flow_gt'' of
             Inl e \<Rightarrow> Inl e
           | Inr ground_truth_flow \<Rightarrow>
               (case compute_epe_error (fst (forward C True (params st) event_image))
                       ground_truth_flow of
                  Inl e \<Rightarrow> Inl e
                | Inr loss \<Rightarrow>
                    (case item loss of
                       Inl e \<Rightarrow> Inl e
                     | Inr l \<Rightarrow>
                         Inr \<lparr>params = snd (backward_step C (optim st) (params st)
                                                event_image ground_truth_flow),
                              optim = fst (backward_step C (optim st) (params st)
                                                event_image ground_truth_flow),
                              total_loss = fl_add (total_loss st) l,
                              printed = printed st @ [BatchLoss (fst ib) l]\<rparr>))))"

fun train_batches ::
  "('g, 's, 'p, 'o) collab \<Rightarrow> (nat \<times> batch) list \<Rightarrow> ('p, 'o) train_state
     \<Rightarrow> error + ('p, 'o) train_state" where
  "train_batches C [] st = Inr st"
| "train_batches C (ib # rest) st =
     (case train_step C ib st of
        Inl e \<Rightarrow> Inl e
      | Inr st' \<Rightarrow> train_batches C rest st')"

text \<open>
  One epoch:
  \<^verbatim>\<open>
  total_loss = 0
  print("on epoch: {}".format(epoch+1))
  for i, batch in enumerate(tqdm(train_data)): ...
  print(f'Epoch {epoch+1}, Loss: {total_loss / len(train_data)}')
  \<close>
  The pass over the loader may advance the generator \<open>g\<close> of the tensor library.
\<close>

definition train_epoch ::
  "('g, 's, 'p, 'o) collab \<Rightarrow> 's data_loader \<Rightarrow> nat \<Rightarrow> ('p, 'o) train_state \<times> 'g
     \<Rightarrow> error + (('p, 'o) train_state \<times> 'g)" where
  "train_epoch C train_data epoch sg =
     (let st0 = (fst sg)\<lparr>total_loss := Num 0,
                          printed := printed (fst sg) @ [OnEpoch (epoch + 1)]\<rparr>;
          batches = fst (loader_iter (loader_base_seed C) (randperm C) train_data (snd sg));
          g' = snd (loader_iter (loader_base_seed C) (randperm C) train_data (snd sg))
      in case train_batches C (zip [0..<length batches] batches) st0 of
           Inl e \<Rightarrow> Inl e
         | Inr st1 \<Rightarrow>
             (case py_div (total_loss st1) (loader_len train_data) of
                Inl e \<Rightarrow> Inl e
              | Inr m \<Rightarrow> Inr (st1\<lparr>printed := printed st1 @ [EpochLoss (epoch + 1) m]\<rparr>, g')))"

text \<open>\<^verbatim>\<open>for epoch in range(args.train.epochs): ...\<close>\<close>

fun train_epochs ::
  "('g, 's, 'p, 'o) collab \<Rightarrow> 's data_loader \<Rightarrow> nat list \<Rightarrow> ('p, 'o) train_state \<times> 'g
     \<Rightarrow> error + (('p, 'o) train_state \<times> 'g)" where
  "train_epochs C train_data [] sg = Inr sg"
| "train_epochs C train_data (epoch # rest) sg =
     (case train_epoch C train_data epoch sg of
        Inl e \<Rightarrow> Inl e
      | Inr sg' \<Rightarrow> train_epochs C train_data rest sg')"

section \<open>Files\<close>

text \<open>
  The part of the process environment the script touches: the random state, the files and
  directories by absolute path, the working directory, the wall-clock time as
  \<^verbatim>\<open>time.strftime("%Y%m%d%H%M%S")\<close> formats it, and the standard output.
\<close>

datatype 'p stored = Checkpoint 'p | NpyArray tensor

record ('g, 'p) world =
  rng :: "'g rng_env"
  files :: "string \<rightharpoonup> 'p stored"
  dirs :: "string set"
  cwd :: "string"
  clock :: "string"
  stdout :: "report list"

text \<open>
  A path that starts with a slash is absolute; any other path is taken from the working
  directory.  \<open>dirname\<close> is the path up to its last slash.
\<close>

definition resolve :: "string \<Rightarrow> string \<Rightarrow> string" where
  "resolve wd path = (if take 1 path = ''/'' then path else wd @ ''/'' @ path)"

definition dirname :: "string \<Rightarrow> string" where
  "dirname path = rev (tl (dropWhile (\<lambda>c. c \<noteq> CHR ''/'') (rev path)))"

text \<open>\<^verbatim>\<open>os.path.exists\<close> and \<^verbatim>\<open>os.makedirs\<close>\<close>

definition path_exists :: "('g, 'p) world \<Rightarrow> string \<Rightarrow> bool" where
  "path_exists w path =
     (resolve (cwd w) path \<in> dirs w \<or> files w (resolve (cwd w) path) \<noteq> None)"

definition makedirs :: "('g, 'p) world \<Rightarrow> string \<Rightarrow> ('g, 'p) world" where
  "makedirs w path = w\<lparr>dirs := insert (resolve (cwd w) path) (dirs w)\<rparr>"

text \<open>Writing a file needs its directory; an existing file is overwritten.\<close>

definition write_file ::
  "('g, 'p) world \<Rightarrow> string \<Rightarrow> 'p stored \<Rightarrow> error + ('g, 'p) world" where
  "write_file w path content =
     (if dirname (resolve (cwd w) path) \<in> dirs w
      then Inr (w\<lparr>files := (files w)(resolve (cwd w) path \<mapsto> content)\<rparr>)
      else Inl FileNotFoundError)"

text \<open>\<^verbatim>\<open>torch.load(path)\<close>: the state dictionary stored in a checkpoint file.\<close>

definition torch_load :: "('g, 'p) world \<Rightarrow> string \<Rightarrow> error + 'p" where
  "torch_load w path =
     (case files w (resolve (cwd w) path) of
        None \<Rightarrow> Inl FileNotFoundError
      | Some (Checkpoint sd) \<Rightarrow> Inr sd
      | Some (NpyArray a) \<Rightarrow> Inl UnpicklingError)"

text \<open>Strict restore: the loaded dictionary replaces the parameters, or the load fails.\<close>

definition load_state_dict :: "('p \<Rightarrow> 'p \<Rightarrow> bool) \<Rightarrow> 'p \<Rightarrow> 'p \<Rightarrow> error + 'p" where
  "load_state_dict matches own sd = (if matches own sd then Inr sd else Inl StateDictMismatch)"

section \<open>Saving and reloading the checkpoint\<close>

text \<open>
  \<^verbatim>\<open>
  if not os.path.exists('checkpoints'):
      os.makedirs('checkpoints')
  current_time = time.strftime("%Y%m%d%H%M%S")
  model_path = f"checkpoints/model_{current_time}.pth"
  torch.save(model.state_dict(), model_path)
  print(f"Model saved to {model_path}")
  \<close>
\<close>

definition save_path :: "('g, 'p) world \<Rightarrow> string" where
  "save_path w = ''checkpoints/model_'' @ clock w @ ''.pth''"

definition save_checkpoint :: "('g, 'p) world \<Rightarrow> 'p \<Rightarrow> error + ('g, 'p) world" where
  "save_checkpoint w sd =
     (let w1 = (if \<not> path_exists w ''checkpoints'' then makedirs w ''checkpoints'' else w)
      in case write_file w1 (save_path w1) (Checkpoint sd) of
           Inl e \<Rightarrow> Inl e
         | Inr w2 \<Rightarrow> Inr (w2\<lparr>stdout := stdout w2 @ [ModelSaved (save_path w1)]\<rparr>))"

text \<open>
  \<^verbatim>\<open>
  model_path='/content/dl_lecture_competition_pub/checkpoints/model_20240717034219.pth'
  model.load_state_dict(torch.load(model_path, map_location=device))
  \<close>
\<close>

definition load_path :: "string" where
  "load_path = ''/content/dl_lecture_competition_pub/checkpoints/model_20240717034219.pth''"

definition reload_checkpoint ::
  "('g, 's, 'p, 'o) collab \<Rightarrow> ('g, 'p) world \<Rightarrow> 'p \<Rightarrow> error + 'p" where
  "reload_checkpoint C w own =
     (case torch_load w load_path of
        Inl e \<Rightarrow> Inl e
      | Inr sd \<Rightarrow> load_state_dict (strict_match C) own sd)"

text \<open>Both steps in the order of the script: the parameters the inference pass will use.\<close>

definition save_then_reload ::
  "('g, 's, 'p, 'o) collab \<Rightarrow> ('g, 'p) world \<Rightarrow> 'p \<Rightarrow> error + (('g, 'p) world \<times> 'p)" where
  "save_then_reload C w trained =
     (case save_checkpoint w trained of
        Inl e \<Rightarrow> Inl e
      | Inr w1 \<Rightarrow>
          (case reload_checkpoint C w1 trained of
             Inl e \<Rightarrow> Inl e
           | Inr loaded \<Rightarrow> Inr (w1, loaded)))"

section \<open>Inference and the submission file\<close>

text \<open>\<^verbatim>\<open>torch.tensor([])\<close>: one dimension, no elements.\<close>

definition empty_tensor :: "tensor" where
  "empty_tensor = \<lparr>shape = [0], vals = []\<rparr>"

text \<open>
  \<^verbatim>\<open>torch.cat((a, b), dim=0)\<close>.  A tensor of no dimensions cannot be concatenated.  A
  tensor of shape \<open>[0]\<close> is skipped, whatever the shape of the other one; otherwise the
  shapes must agree after the first dimension.
\<close>

definition torch_cat0 :: "tensor \<Rightarrow> tensor \<Rightarrow> error + tensor" where
  "torch_cat0 a b =
     (if shape a = [] \<or> shape b = [] then Inl CatSizeMismatch
      else if shape a = [0] then Inr b
      else if shape b = [0] then Inr a
      else case (shape a, shape b) of
             (m # ra, n # rb) \<Rightarrow>
               if ra = rb then Inr \<lparr>shape = (m + n) # ra, vals = vals a @ vals b\<rparr>
               else Inl CatSizeMismatch
           | _ \<Rightarrow> Inl CatSizeMismatch)"

text \<open>
  \<^verbatim>\<open>
  for batch in tqdm(test_data):
      event_image = batch["event_volume"].to(device)
      flow_, batch_flow = model(event_image)
      flow = torch.cat((flow, flow_), dim=0)
  \<close>
\<close>

fun predict_batches ::
  "('g, 's, 'p, 'o) collab \<Rightarrow> 'p \<Rightarrow> batch list \<Rightarrow> tensor \<Rightarrow> error + tensor" where
  "predict_batches C p [] flow = Inr flow"
| "predict_batches C p (b # rest) flow =
     (case batch_get b ''event_volume'' of
        Inl e \<Rightarrow> Inl e
      | Inr event_image \<Rightarrow>
          (case torch_cat0 flow (fst (forward C False p event_image)) of
             Inl e \<Rightarrow> Inl e
           | Inr flow' \<Rightarrow> predict_batches C p rest flow'))"

text \<open>
  \<^verbatim>\<open>
  def save_optical_flow_to_npy(flow, file_name):
      np.save(f"{file_name}.npy", flow.cpu().numpy())
  \<close>
\<close>

definition save_optical_flow_to_npy ::
  "('g, 'p) world \<Rightarrow> tensor \<Rightarrow> string \<Rightarrow> error + ('g, 'p) world" where
  "save_optical_flow_to_npy w flow file_name = write_file w (file_name @ ''.npy'') (NpyArray flow)"

text \<open>The submission path of the script; the four characters after \<open>DL\<close> are not ASCII.\<close>

definition file_name :: "string" where
  "file_name =
     ''/content/drive/MyDrive/DL''
     @ [CHR 0xE6, CHR 0x9C, CHR 0x80, CHR 0xE7, CHR 0xB5, CHR 0x82,
        CHR 0xE8, CHR 0xAA, CHR 0xB2, CHR 0xE9, CHR 0xA1, CHR 0x8C]
     @ ''event/submission''"

text \<open>
  The inference pass and the write:
  \<^verbatim>\<open>
  flow = torch.tensor([]).to(device)
  with torch.no_grad():
      print("start test")
      for batch in tqdm(test_data): ...
      print("test done")
  save_optical_flow_to_npy(flow, file_name)
  \<close>
\<close>

definition predict_and_save ::
  "('g, 's, 'p, 'o) collab \<Rightarrow> ('g, 'p) world \<Rightarrow> 'p \<Rightarrow> batch list
     \<Rightarrow> error + ('g, 'p) world" where
  "predict_and_save C w p test_batches =
     (case predict_batches C p test_batches empty_tensor of
        Inl e \<Rightarrow> Inl e
      | Inr flow \<Rightarrow>
          save_optical_flow_to_npy (w\<lparr>stdout := stdout w @ [StartTest, TestDone]\<rparr>)
            flow file_name)"

section \<open>The orchestrator\<close>

text \<open>The two loaders, built from the configuration as \<^verbatim>\<open>main\<close> does.\<close>

definition train_loader ::
  "('g, 's, 'p, 'o) collab \<Rightarrow> config \<Rightarrow> error + 's data_loader" where
  "train_loader C cfg =
     DataLoader (fst (DatasetProvider C (dataset_path cfg) VOXEL 100 4))
       (train_batch_size cfg) (train_shuffle cfg) (train_collate C) False"

definition test_loader ::
  "('g, 's, 'p, 'o) collab \<Rightarrow> config \<Rightarrow> error + 's data_loader" where
  "test_loader C cfg =
     DataLoader (snd (DatasetProvider C (dataset_path cfg) VOXEL 100 4))
       (test_batch_size cfg) (test_shuffle cfg) (train_collate C) False"

text \<open>
  \<^verbatim>\<open>main\<close>: seeding, the loaders, the model and its optimizer, the epochs, the
  checkpoint, the reload, the inference pass and the submission file.  Any error ends the
  run.
\<close>

definition main ::
  "('g, 's, 'p, 'o) collab \<Rightarrow> config \<Rightarrow> ('g, 'p) world \<Rightarrow> error + ('g, 'p) world" where
  "main C cfg w =
     (case set_seed (seeding C) (seed cfg) (rng w) of
        Inl e \<Rightarrow> Inl e
      | Inr r1 \<Rightarrow>
     (case train_loader C cfg of
        Inl e \<Rightarrow> Inl e
      | Inr train_data \<Rightarrow>
     (case test_loader C cfg of
        Inl e \<Rightarrow> Inl e
      | Inr test_data \<Rightarrow>
     (let p0 = fst (EVFlowNet C cfg (torch_cpu r1));
          g1 = snd (EVFlowNet C cfg (torch_cpu r1));
          st0 = \<lparr>params = p0,
                 optim = Adam C p0 (initial_learning_rate cfg) (weight_decay cfg),
                 total_loss = Num 0, printed = stdout w\<rparr>
      in case train_epochs C train_data [0..<nat (epochs cfg)] (st0, g1) of
           Inl e \<Rightarrow> Inl e
         | Inr (st1, g2) \<Rightarrow>
     (case save_then_reload C (w\<lparr>rng := r1\<lparr>torch_cpu := g2\<rparr>, stdout := printed st1\<rparr>)
             (params st1) of
        Inl e \<Rightarrow> Inl e
      | Inr (w1, loaded) \<Rightarrow>
          predict_and_save C
            (w1\<lparr>rng := (rng w1)\<lparr>torch_cpu :=
                   snd (loader_iter (loader_base_seed C) (randperm C) test_data (torch_cpu (rng w1)))\<rparr>\<rparr>)
            loaded
            (fst (loader_iter (loader_base_seed C) (randperm C) test_data (torch_cpu (rng w1)))))))))"

section \<open>Rows of a tensor\<close>

text \<open>
  \<^verbatim>\<open>t[i]\<close>: the \<open>i\<close>-th row of a tensor along its first dimension, used to state which
  prediction ends up in which row of the submission array.
\<close>

definition row :: "tensor \<Rightarrow> nat \<Rightarrow> tensor" where
  "row t i = \<lparr>shape = tl (shape t), vals = block i (prod_list (tl (shape t))) (vals t)\<rparr>"

text \<open>The size of the first dimension.\<close>

definition rows :: "tensor \<Rightarrow> nat" where
  "rows t = (case shape t of [] \<Rightarrow> 0 | n # _ \<Rightarrow> n)"

section \<open>A small concrete system\<close>

text \<open>
  Collaborators small enough to run the definitions on concrete inputs.  A sample is a pair
  of an event tensor and a ground-truth flow; collation stacks the samples of a batch; the
  network returns its input as the flow and learns nothing; the sampler's permutation
  reverses the order; generators are counters.
\<close>

definition stack :: "tensor list \<Rightarrow> tensor" where
  "stack ts =
     \<lparr>shape = length ts # (case ts of [] \<Rightarrow> [] | t # _ \<Rightarrow> shape t),
      vals = concat (map vals ts)\<rparr>"

definition demo_collate :: "(tensor \<times> tensor) list \<Rightarrow> batch" where
  "demo_collate ss = [''event_volume'' \<mapsto> stack (map fst ss), ''flow_gt'' \<mapsto> stack (map snd ss)]"

definition demo_sample :: "real \<Rightarrow> real \<Rightarrow> tensor \<times> tensor" where
  "demo_sample a b =
     (\<lparr>shape = [2, 1, 1], vals = [Num a, Num b]\<rparr>, \<lparr>shape = [2, 1, 1], vals = [Num 0, Num 0]\<rparr>)"

definition demo_seeding :: "nat seed_lib" where
  "demo_seeding =
     \<lparr>random_seed = (\<lambda>s. nat \<bar>s\<bar>),
      torch_manual_seed = (\<lambda>s. Inr (nat \<bar>s\<bar>, nat \<bar>s\<bar>)),
      cuda_manual_seed_all = (\<lambda>s. Inr (nat \<bar>s\<bar>)),
      np_random_seed = (\<lambda>s. nat s)\<rparr>"

definition demo_collab :: "(nat, tensor \<times> tensor, real, unit) collab" where
  "demo_collab =
     \<lparr>seeding = demo_seeding,
      loader_base_seed = Suc,
      randperm = (\<lambda>g n. (\<lambda>i. n - 1 - i, Suc g)),
      DatasetProvider = (\<lambda>path rep dt bins.
        ([demo_sample (2 / 5) 0, demo_sample (3 / 5) 0, demo_sample 0 (1 / 2)],
         [demo_sample 1 2, demo_sample 3 4, demo_sample 5 6])),
      train_collate = demo_collate,
      EVFlowNet = (\<lambda>cfg g. (1, Suc g)),
      forward = (\<lambda>training p event_image. (event_image, Map.empty)),
      Adam = (\<lambda>p lr wd. ()),
      backward_step = (\<lambda>opt p event_image gt. (opt, p)),
      strict_match = (\<lambda>own sd. True)\<rparr>"

definition demo_config :: "config" where
  "demo_config =
     \<lparr>seed = 42, dataset_path = ''data'', train_batch_size = 1, train_shuffle = False,
      test_batch_size = 2, test_shuffle = False, epochs = 1,
      initial_learning_rate = 1 / 1000, weight_decay = 0\<rparr>"

definition demo_rng :: "nat rng_env" where
  "demo_rng =
     \<lparr>py_random = 0, torch_cpu = 0, torch_cuda = 0, np_random = 0,
      cudnn_deterministic = False, cudnn_benchmark = True\<rparr>"

definition demo_world :: "(nat, real) world" where
  "demo_world =
     \<lparr>rng = demo_rng,
      files = [load_path \<mapsto> Checkpoint 7],
      dirs = {dirname (file_name @ ''.npy'')},
      cwd = ''/content/dl_lecture_competition_pub'',
      clock = ''20250101000000'',
      stdout = []\<rparr>"

section \<open>Facts about lists, elements and tensor operations\<close>

lemma concat_map_upt:
  "concat (map (\<lambda>j. map (f j) [0..<i]) [0..<q]) = map (\<lambda>k. f (k div i) (k mod i)) [0..<q * i]"
proof (induction q)
  case 0
  show ?case by simp
next
  case (Suc q)
  have "[0..<q * i + i] = [0..<q * i] @ [q * i..<q * i + i]"
    by (rule upt_add_eq_append) simp
  moreover have "[q * i..<q * i + i] = map (\<lambda>x. q * i + x) [0..<i]"
    by (simp add: map_add_upt [symmetric] add.commute)
  ultimately have "[0..<Suc q * i] = [0..<q * i] @ map (\<lambda>x. q * i + x) [0..<i]"
    by (simp add: add.commute)
  moreover have "map (\<lambda>k. f (k div i) (k mod i)) (map (\<lambda>x. q * i + x) [0..<i]) = map (f q) [0..<i]"
    by (simp add: comp_def)
  ultimately show ?case using Suc by (simp del: mult_Suc)
qed

lemma reduce_dim_eq:
  "reduce_dim f q n i xs =
     map (\<lambda>j. f (map (\<lambda>k. xs ! (((j div i) * n + k) * i + j mod i)) [0..<n])) [0..<q * i]"
  unfolding reduce_dim_def by (rule concat_map_upt)

lemma length_reduce_dim [simp]: "length (reduce_dim f q n i xs) = q * i"
  by (simp add: reduce_dim_eq)

lemma length_block: "(Suc k) * n \<le> length xs \<Longrightarrow> length (block k n xs) = n"
  by (auto simp: block_def)

lemma block_0: "block 0 n xs = take n xs"
  by (simp add: block_def)

lemma block_Suc: "block (Suc k) n xs = block k n (drop n xs)"
  by (simp add: block_def add.commute)

lemma concat_blocks_map2:
  "length xs = m * n \<Longrightarrow> length ys = m * n \<Longrightarrow>
   concat (map (\<lambda>k. map2 f (block k n xs) (block k n ys)) [0..<m]) = map2 f xs ys"
proof (induction m arbitrary: xs ys)
  case 0
  then show ?case by simp
next
  case (Suc m)
  have u: "[0..<Suc m] = 0 # map Suc [0..<m]"
    by (simp add: upt_conv_Cons map_Suc_upt del: upt_Suc)
  have "concat (map (\<lambda>k. map2 f (block k n xs) (block k n ys)) [0..<Suc m]) =
        map2 f (take n xs) (take n ys) @
        concat (map (\<lambda>k. map2 f (block k n (drop n xs)) (block k n (drop n ys))) [0..<m])"
    unfolding u by (simp add: block_0 block_Suc comp_def)
  also have "concat (map (\<lambda>k. map2 f (block k n (drop n xs)) (block k n (drop n ys))) [0..<m])
      = map2 f (drop n xs) (drop n ys)"
    using Suc.prems by (intro Suc.IH) auto
  also have "map2 f (take n xs) (take n ys) @ map2 f (drop n xs) (drop n ys) = map2 f xs ys"
    by (simp add: take_zip [symmetric] drop_zip [symmetric] take_map [symmetric] drop_map [symmetric])
  finally show ?case .
qed

lemma broadcast_vals_same:
  "length xs = prod_list s \<Longrightarrow> length ys = prod_list s \<Longrightarrow>
   broadcast_vals f s xs s ys = map2 f xs ys"
proof (induction s arbitrary: xs ys)
  case Nil
  then show ?case by simp
next
  case (Cons m ms)
  have "\<And>k. k \<in> set [0..<m] \<Longrightarrow>
      broadcast_vals f ms (block k (prod_list ms) xs) ms (block k (prod_list ms) ys) =
      map2 f (block k (prod_list ms) xs) (block k (prod_list ms) ys)"
  proof -
    fix k assume "k \<in> set [0..<m]"
    then have "Suc k * prod_list ms \<le> m * prod_list ms"
      by (intro mult_le_mono1) auto
    then show "broadcast_vals f ms (block k (prod_list ms) xs) ms (block k (prod_list ms) ys) =
      map2 f (block k (prod_list ms) xs) (block k (prod_list ms) ys)"
      using Cons.prems by (intro Cons.IH length_block) auto
  qed
  then have "concat (map (\<lambda>k. broadcast_vals f ms (block k (prod_list ms) xs) ms (block k (prod_list ms) ys)) [0..<m])
     = concat (map (\<lambda>k. map2 f (block k (prod_list ms) xs) (block k (prod_list ms) ys)) [0..<m])"
    by (intro arg_cong [where f = concat] map_cong refl)
  then show ?case using Cons.prems by (simp add: concat_blocks_map2)
qed

lemma broadcast_shape_same [simp]: "broadcast_shape s s = Some s"
  by (induction s) auto

lemma pad_shape_same [simp]: "pad_shape (length s) s = s"
  by (simp add: pad_shape_def)

lemma tensor_sub_same_shape:
  "shape a = s \<Longrightarrow> shape b = s \<Longrightarrow> length (vals a) = prod_list s \<Longrightarrow> length (vals b) = prod_list s \<Longrightarrow>
   tensor_sub a b = Inr \<lparr>shape = s, vals = map2 fl_sub (vals a) (vals b)\<rparr>"
  by (simp add: tensor_sub_def broadcast_vals_same)

lemma broadcast_shape_None_iff:
  "length a = length b \<Longrightarrow>
   (broadcast_shape a b = None) = (\<exists>i<length a. a ! i \<noteq> b ! i \<and> a ! i \<noteq> 1 \<and> b ! i \<noteq> 1)"
proof (induction a b rule: list_induct2)
  case Nil
  show ?case by simp
next
  case (Cons x xs y ys)
  show ?case
    using Cons.IH by (auto simp: Ex_less_Suc2)
qed

lemma broadcast_shape_length:
  "broadcast_shape a b = Some s \<Longrightarrow> length s = length a"
proof (induction a b arbitrary: s rule: broadcast_shape.induct)
  case 1
  then show ?case by simp
next
  case (2 m ms n ns)
  then show ?case by (auto split: if_splits)
qed simp_all

lemma fl_add_0_right [simp]: "fl_add x (Num 0) = x"
  by (cases x) auto

lemma l2_norm_pair: "l2_norm [a, c] = fl_sqrt (fl_add (fl_sq a) (fl_sq c))"
  by (simp add: l2_norm_def fl_sum_def)

lemma fl_sum_Num: "fl_sum (map Num ws) = Num (sum_list ws)"
  by (induction ws) (simp_all add: fl_sum_def)

lemma fl_mean_Num: "ws \<noteq> [] \<Longrightarrow> fl_mean (map Num ws) = Num (sum_list ws / real (length ws))"
  by (simp add: fl_mean_def fl_sum_Num)

lemma l2_norm_Num: "l2_norm (map Num ws) = Num (sqrt (sum_list (map (\<lambda>w. w * w) ws)))"
proof -
  have "map fl_sq (map Num ws) = map Num (map (\<lambda>w. w * w) ws)"
    by simp
  moreover have "0 \<le> sum_list (map (\<lambda>w. w * w) ws)"
    by (rule sum_list_nonneg) auto
  ultimately show ?thesis
    by (simp add: l2_norm_def fl_sum_Num del: map_map)
qed

lemma all_Num_map:
  "\<forall>v\<in>set vs. \<exists>r. P r \<and> v = Num r \<Longrightarrow> \<exists>ws. vs = map Num ws \<and> (\<forall>w\<in>set ws. P w)"
proof (induction vs)
  case Nil
  show ?case by simp
next
  case (Cons v vs)
  then obtain ws where ws: "vs = map Num ws" "\<forall>w\<in>set ws. P w"
    by auto
  from Cons.prems obtain r where r: "P r" "v = Num r"
    by auto
  show ?case
    using ws r by (intro exI [of _ "r # ws"]) simp
qed

lemma fl_mean_nonneg:
  assumes "vs \<noteq> []" and "\<forall>v\<in>set vs. \<exists>r. 0 \<le> r \<and> v = Num r"
  shows "\<exists>r. 0 \<le> r \<and> fl_mean vs = Num r"
proof -
  obtain ws where ws: "vs = map Num ws" "\<forall>w\<in>set ws. 0 \<le> w"
    using all_Num_map [OF assms(2)] by blast
  have "0 \<le> sum_list ws"
    using ws(2) by (intro sum_list_nonneg) auto
  then have "0 \<le> sum_list ws / real (length ws)"
    by simp
  moreover have "fl_mean vs = Num (sum_list ws / real (length ws))"
    using assms(1) ws(1) by (simp add: fl_mean_Num)
  ultimately show ?thesis by blast
qed

lemma fl_mean_zero:
  assumes "vs \<noteq> []" and "\<forall>v\<in>set vs. v = Num 0"
  shows "fl_mean vs = Num 0"
proof -
  have "\<forall>v\<in>set vs. \<exists>r. r = 0 \<and> v = Num r"
    using assms(2) by simp
  then obtain ws where ws: "vs = map Num ws" "\<forall>w\<in>set ws. w = (0::real)"
    using all_Num_map [where P = "\<lambda>r. r = 0"] by blast
  have "sum_list ws = 0"
    using ws(2) by (induction ws) auto
  then show ?thesis
    using assms(1) ws(1) by (simp add: fl_mean_Num)
qed

lemma l2_norm_nonneg:
  assumes "\<forall>v\<in>set vs. \<exists>r. v = Num r"
  shows "\<exists>r. 0 \<le> r \<and> l2_norm vs = Num r"
proof -
  have "\<forall>v\<in>set vs. \<exists>r. True \<and> v = Num r"
    using assms by simp
  then obtain ws where "vs = map Num ws"
    using all_Num_map [where P = "\<lambda>r. True"] by blast
  then show ?thesis
    by (auto simp: l2_norm_Num intro!: sum_list_nonneg)
qed

lemma l2_norm_zero:
  assumes "\<forall>v\<in>set vs. v = Num 0"
  shows "l2_norm vs = Num 0"
proof -
  have "\<forall>v\<in>set vs. \<exists>r. r = 0 \<and> v = Num r"
    using assms by simp
  then obtain ws where ws: "vs = map Num ws" "\<forall>w\<in>set ws. w = (0::real)"
    using all_Num_map [where P = "\<lambda>r. r = 0"] by blast
  have "sum_list (map (\<lambda>w. w * w) ws) = 0"
    using ws(2) by (induction ws) auto
  then show ?thesis
    using ws(1) by (simp add: l2_norm_Num)
qed

lemma idx_bound:
  fixes b c k B C N :: nat
  assumes "b < B" "c < C" "k < N"
  shows "(b * C + c) * N + k < B * C * N"
proof -
  have "Suc b * C \<le> B * C"
    using assms(1) by (intro mult_le_mono1) simp
  then have "Suc (b * C + c) \<le> B * C"
    using assms(2) by simp
  then have "Suc (b * C + c) * N \<le> B * C * N"
    by (rule mult_le_mono1)
  then show ?thesis using assms(3) by simp
qed

lemma div_mod_block:
  fixes b k N :: nat
  shows "k < N \<Longrightarrow> (b * N + k) div N = b \<and> (b * N + k) mod N = k"
  by simp

lemma pixel_index: "((a * H + k div W) * W + k mod W) = a * (H * W) + (k::nat)"
  by (simp add: algebra_simps)

lemma sqrt_25: "sqrt 25 = 5"
  using real_sqrt_abs [of 5] by simp

text \<open>The definitions that evaluate the end-point error of concrete tensors.\<close>

lemmas epe_eval = compute_epe_error_def tensor_sub_def pad_shape_def norm_p2_dim1_def
  mean_dim12_def mean_dim0_def reduce_dim_def fl_mean_def fl_sum_def l2_norm_def block_def

section \<open>The end-point error\<close>

text \<open>
  For two well-formed tensors of the same four-dimensional shape the result is a tensor of
  no dimensions: the mean over the samples of the mean over the pixels of the 2-norm over
  the channels of the difference.
\<close>

lemma epe_equal_shapes:
  assumes sp: "shape p = [B, C, H, W]" and sg: "shape g = [B, C, H, W]"
    and lp: "length (vals p) = B * C * H * W" and lg: "length (vals g) = B * C * H * W"
  shows "compute_epe_error p g =
    Inr \<lparr>shape = [],
         vals = [fl_mean (map (\<lambda>b. fl_mean (map (\<lambda>k. l2_norm (map (\<lambda>c.
                    fl_sub (vals p ! ((b * C + c) * (H * W) + k))
                           (vals g ! ((b * C + c) * (H * W) + k))) [0..<C]))
                  [0..<H * W])) [0..<B])]\<rparr>"
proof -
  define d where "d = map2 fl_sub (vals p) (vals g)"
  define n where "n = reduce_dim l2_norm B C (H * W) d"
  define m where "m = reduce_dim fl_mean B (H * W) 1 n"
  have d_nth: "d ! i = fl_sub (vals p ! i) (vals g ! i)" if "i < B * C * H * W" for i
    using that lp lg by (simp add: d_def)
  have sub: "tensor_sub p g = Inr \<lparr>shape = [B, C, H, W], vals = d\<rparr>"
    unfolding d_def using sp sg lp lg by (intro tensor_sub_same_shape) (simp_all add: mult.assoc)
  have nrm: "norm_p2_dim1 \<lparr>shape = [B, C, H, W], vals = d\<rparr> = Inr \<lparr>shape = [B, H, W], vals = n\<rparr>"
    by (simp add: norm_p2_dim1_def n_def)
  have m12: "mean_dim12 \<lparr>shape = [B, H, W], vals = n\<rparr> = Inr \<lparr>shape = [B], vals = m\<rparr>"
    by (simp add: mean_dim12_def m_def)
  have m0: "mean_dim0 \<lparr>shape = [B], vals = m\<rparr> = Inr \<lparr>shape = [], vals = reduce_dim fl_mean 1 B 1 m\<rparr>"
    by (simp add: mean_dim0_def)
  have len_m: "length m = B"
    by (simp add: m_def)
  have "reduce_dim fl_mean 1 B 1 m = [fl_mean (map ((!) m) [0..<length m])]"
    by (simp add: reduce_dim_eq len_m)
  then have r: "reduce_dim fl_mean 1 B 1 m = [fl_mean m]"
    by (simp only: map_nth)
  have n_nth: "n ! (b * (H * W) + k) = l2_norm (map (\<lambda>c.
                    fl_sub (vals p ! ((b * C + c) * (H * W) + k))
                           (vals g ! ((b * C + c) * (H * W) + k))) [0..<C])"
    if "b < B" "k < H * W" for b k
  proof -
    have lt: "b * (H * W) + k < B * (H * W)"
      using idx_bound [of b B 0 1 k "H * W"] that by simp
    have "n ! (b * (H * W) + k) = l2_norm (map (\<lambda>c. d ! ((b * C + c) * (H * W) + k)) [0..<C])"
      unfolding n_def reduce_dim_eq using lt div_mod_block [OF that(2), of b] by simp
    also have "map (\<lambda>c. d ! ((b * C + c) * (H * W) + k)) [0..<C] =
               map (\<lambda>c. fl_sub (vals p ! ((b * C + c) * (H * W) + k))
                           (vals g ! ((b * C + c) * (H * W) + k))) [0..<C]"
    proof (rule map_cong [OF refl])
      fix c assume "c \<in> set [0..<C]"
      then have "(b * C + c) * (H * W) + k < B * C * (H * W)"
        using that by (intro idx_bound) auto
      then show "d ! ((b * C + c) * (H * W) + k) =
          fl_sub (vals p ! ((b * C + c) * (H * W) + k)) (vals g ! ((b * C + c) * (H * W) + k))"
        by (intro d_nth) (simp add: mult.assoc)
    qed
    finally show ?thesis .
  qed
  have "m = map (\<lambda>b. fl_mean (map (\<lambda>k. n ! (b * (H * W) + k)) [0..<H * W])) [0..<B]"
    by (simp add: m_def reduce_dim_eq)
  also have "\<dots> = map (\<lambda>b. fl_mean (map (\<lambda>k. l2_norm (map (\<lambda>c.
                    fl_sub (vals p ! ((b * C + c) * (H * W) + k))
                           (vals g ! ((b * C + c) * (H * W) + k))) [0..<C]))
                  [0..<H * W])) [0..<B]"
    by (intro map_cong refl arg_cong [where f = fl_mean] n_nth) auto
  finally have m_eq: "m = map (\<lambda>b. fl_mean (map (\<lambda>k. l2_norm (map (\<lambda>c.
                    fl_sub (vals p ! ((b * C + c) * (H * W) + k))
                           (vals g ! ((b * C + c) * (H * W) + k))) [0..<C]))
                  [0..<H * W])) [0..<B]" .
  have "compute_epe_error p g = Inr \<lparr>shape = [], vals = [fl_mean m]\<rparr>"
    using r by (simp add: compute_epe_error_def sub nrm m12 m0)
  then show ?thesis
    unfolding m_eq .
qed

lemma norm_not_mismatch: "norm_p2_dim1 t \<noteq> Inl ShapeMismatch"
  by (simp add: norm_p2_dim1_def split: list.splits)

lemma mean12_not_mismatch: "mean_dim12 t \<noteq> Inl ShapeMismatch"
  by (simp add: mean_dim12_def split: list.splits)

lemma mean0_not_mismatch: "mean_dim0 t \<noteq> Inl ShapeMismatch"
  by (simp add: mean_dim0_def split: list.splits)

lemma epe_mismatch_iff:
  "(compute_epe_error p g = Inl ShapeMismatch) = (tensor_sub p g = Inl ShapeMismatch)"
  using norm_not_mismatch mean12_not_mismatch mean0_not_mismatch
  by (auto simp: compute_epe_error_def split: sum.splits)

lemma epe_value_rank4:
  assumes "length (shape p) = 4" and "length (shape g) = 4"
    and "broadcast_shape (shape p) (shape g) \<noteq> None"
  shows "\<exists>v. compute_epe_error p g = Inr v \<and> shape v = [] \<and> length (vals v) = 1"
proof -
  from assms(3) obtain s where s: "broadcast_shape (shape p) (shape g) = Some s"
    by blast
  have "length s = 4"
    using broadcast_shape_length [OF s] assms(1) by simp
  then obtain B C H W where shp: "s = [B, C, H, W]"
    by (auto simp: length_Suc_conv numeral_eq_Suc)
  have sub: "tensor_sub p g = Inr \<lparr>shape = [B, C, H, W],
      vals = broadcast_vals fl_sub (shape p) (vals p) (shape g) (vals g)\<rparr>"
    using assms(1,2) s shp by (simp add: tensor_sub_def pad_shape_def Let_def)
  show ?thesis
    by (simp add: compute_epe_error_def sub norm_p2_dim1_def mean_dim12_def mean_dim0_def)
qed

text \<open>
  Claim C2.  For well-formed flow tensors \<open>pred_flow\<close> and \<open>gt_flow\<close> of the same shape
  \<open>[B, 2, H, W]\<close>, \<open>compute_epe_error\<close> returns the scalar of the specification: at every
  pixel the Euclidean norm of the two-component difference, averaged over the \<open>H \<times> W\<close>
  pixels of each sample, then averaged over the \<open>B\<close> samples with equal weight.
\<close>

theorem epe_refines_spec:
  assumes "wf_tensor pred_flow" and "wf_tensor gt_flow"
    and "shape pred_flow = [B, 2, H, W]" and "shape gt_flow = [B, 2, H, W]"
  shows "compute_epe_error pred_flow gt_flow =
           Inr \<lparr>shape = [], vals = [epe_spec pred_flow gt_flow B H W]\<rparr>"
proof -
  have lp: "length (vals pred_flow) = B * 2 * H * W" and lg: "length (vals gt_flow) = B * 2 * H * W"
    using assms by (simp_all add: wf_tensor_def mult.assoc)
  have px: "pixel_epe pred_flow gt_flow b (k div W) (k mod W) =
      l2_norm (map (\<lambda>c. fl_sub (vals pred_flow ! ((b * 2 + c) * (H * W) + k))
                               (vals gt_flow ! ((b * 2 + c) * (H * W) + k))) [0..<2])" for b k
  proof -
    have at: "at4 t b c (k div W) (k mod W) = vals t ! ((b * 2 + c) * (H * W) + k)"
      if "shape t = [B, 2, H, W]" for t c
      by (simp add: at4_def that pixel_index)
    have two: "map f [0..<2] = [f 0, f 1]" for f :: "nat \<Rightarrow> fl"
      by (simp add: upt_rec)
    show ?thesis
      by (simp only: pixel_epe_def at [OF assms(3)] at [OF assms(4)] two l2_norm_pair)
  qed
  have "sample_epe pred_flow gt_flow H W =
      (\<lambda>b. fl_mean (map (\<lambda>k. pixel_epe pred_flow gt_flow b (k div W) (k mod W)) [0..<H * W]))"
    by (rule ext) (simp add: sample_epe_def concat_map_upt)
  then have "epe_spec pred_flow gt_flow B H W =
      fl_mean (map (\<lambda>b. fl_mean (map (\<lambda>k. pixel_epe pred_flow gt_flow b (k div W) (k mod W))
         [0..<H * W])) [0..<B])"
    by (simp add: epe_spec_def)
  then show ?thesis
    by (simp only: px epe_equal_shapes [OF assms(3,4) lp lg])
qed

theorem epe_refines_spec_witness:
  "wf_tensor \<lparr>shape = [2, 2, 1, 2], vals = map Num [3, 0, 4, 0, 0, 3, 0, 4]\<rparr>
   \<and> wf_tensor \<lparr>shape = [2, 2, 1, 2], vals = map Num [0, 0, 0, 0, 0, 0, 0, 0]\<rparr>
   \<and> compute_epe_error \<lparr>shape = [2, 2, 1, 2], vals = map Num [3, 0, 4, 0, 0, 3, 0, 4]\<rparr>
        \<lparr>shape = [2, 2, 1, 2], vals = map Num [0, 0, 0, 0, 0, 0, 0, 0]\<rparr>
      = Inr \<lparr>shape = [], vals = [Num (5 / 2)]\<rparr>
   \<and> epe_spec \<lparr>shape = [2, 2, 1, 2], vals = map Num [3, 0, 4, 0, 0, 3, 0, 4]\<rparr>
        \<lparr>shape = [2, 2, 1, 2], vals = map Num [0, 0, 0, 0, 0, 0, 0, 0]\<rparr> 2 1 2 = Num (5 / 2)"
proof -
  let ?p = "\<lparr>shape = [2, 2, 1, 2], vals = map Num [3, 0, 4, 0, 0, 3, 0, 4]\<rparr>"
  let ?g = "\<lparr>shape = [2, 2, 1, 2], vals = map Num [0, 0, 0, 0, 0, 0, 0, 0]\<rparr>"
  have wp: "wf_tensor ?p" and wg: "wf_tensor ?g"
    by (simp_all add: wf_tensor_def)
  have sp: "shape ?p = [2, 2, 1, 2]" and sg: "shape ?g = [2, 2, 1, 2]"
    by simp_all
  have v: "epe_spec ?p ?g 2 1 2 = Num (5 / 2)"
    by (simp add: epe_spec_def sample_epe_def pixel_epe_def at4_def fl_mean_def fl_sum_def
        upt_rec sqrt_25)
  show ?thesis
    using epe_refines_spec [OF wp wg sp sg] wp wg v by simp
qed

text \<open>
  Claim C3, as amended.  The function has no shape check of its own; the subtraction
  broadcasts.  For two tensors of the same number of dimensions it fails with the
  shape-mismatch error exactly when some dimension differs and neither of the two sizes is
  one; shapes \<open>[2, 2, 480, 640]\<close> and \<open>[3, 2, 480, 640]\<close> are rejected.  Two tensors of
  four dimensions whose shapes differ only where one of the two sizes is one are broadcast,
  and a value is returned: a tensor of no dimensions with one element.
\<close>

theorem epe_shape_error_iff:
  assumes "length (shape pred_flow) = length (shape gt_flow)"
  shows "(compute_epe_error pred_flow gt_flow = Inl ShapeMismatch) =
         (\<exists>i<length (shape pred_flow).
            shape pred_flow ! i \<noteq> shape gt_flow ! i \<and>
            shape pred_flow ! i \<noteq> 1 \<and> shape gt_flow ! i \<noteq> 1)
         \<and> (length (shape pred_flow) = 4 \<longrightarrow>
              \<not> (\<exists>i<length (shape pred_flow).
                    shape pred_flow ! i \<noteq> shape gt_flow ! i \<and>
                    shape pred_flow ! i \<noteq> 1 \<and> shape gt_flow ! i \<noteq> 1) \<longrightarrow>
              (\<exists>v. compute_epe_error pred_flow gt_flow = Inr v \<and> shape v = []
                    \<and> length (vals v) = 1))"
proof -
  have "(tensor_sub pred_flow gt_flow = Inl ShapeMismatch) =
        (broadcast_shape (shape pred_flow) (shape gt_flow) = None)"
    using assms by (simp add: tensor_sub_def pad_shape_def Let_def split: option.splits)
  then have a: "(compute_epe_error pred_flow gt_flow = Inl ShapeMismatch) =
         (\<exists>i<length (shape pred_flow).
            shape pred_flow ! i \<noteq> shape gt_flow ! i \<and>
            shape pred_flow ! i \<noteq> 1 \<and> shape gt_flow ! i \<noteq> 1)"
    using assms by (simp add: epe_mismatch_iff broadcast_shape_None_iff)
  have b: "\<exists>v. compute_epe_error pred_flow gt_flow = Inr v \<and> shape v = []
                \<and> length (vals v) = 1"
    if "length (shape pred_flow) = 4"
      and "\<not> (\<exists>i<length (shape pred_flow).
                    shape pred_flow ! i \<noteq> shape gt_flow ! i \<and>
                    shape pred_flow ! i \<noteq> 1 \<and> shape gt_flow ! i \<noteq> 1)"
  proof -
    have "broadcast_shape (shape pred_flow) (shape gt_flow) \<noteq> None"
      using that(2) broadcast_shape_None_iff [OF assms] by simp
    then show ?thesis
      using that(1) assms by (intro epe_value_rank4) simp_all
  qed
  show ?thesis
    using a b by blast
qed

theorem epe_shape_error_witness:
  "length (shape \<lparr>shape = [2, 2, 480, 640], vals = replicate 1228800 (Num 0)\<rparr>)
     = length (shape \<lparr>shape = [3, 2, 480, 640], vals = replicate 1843200 (Num 0)\<rparr>)
   \<and> compute_epe_error \<lparr>shape = [2, 2, 480, 640], vals = replicate 1228800 (Num 0)\<rparr>
        \<lparr>shape = [3, 2, 480, 640], vals = replicate 1843200 (Num 0)\<rparr> = Inl ShapeMismatch
   \<and> (\<exists>v. compute_epe_error \<lparr>shape = [2, 2, 1, 2], vals = map Num [1, 2, 3, 4, 5, 6, 7, 8]\<rparr>
             \<lparr>shape = [1, 2, 1, 1], vals = map Num [1, 2]\<rparr> = Inr v
          \<and> shape v = [] \<and> length (vals v) = 1)"
proof -
  let ?p = "\<lparr>shape = [2, 2, 480, 640], vals = replicate 1228800 (Num 0)\<rparr>"
  let ?g = "\<lparr>shape = [3, 2, 480, 640], vals = replicate 1843200 (Num 0)\<rparr>"
  let ?a = "\<lparr>shape = [2, 2, 1, 2], vals = map Num [1, 2, 3, 4, 5, 6, 7, 8]\<rparr>"
  let ?b = "\<lparr>shape = [1, 2, 1, 1], vals = map Num [1, 2]\<rparr>"
  have len: "length (shape ?p) = length (shape ?g)"
    by simp
  have "\<exists>i<length (shape ?p). shape ?p ! i \<noteq> shape ?g ! i \<and> shape ?p ! i \<noteq> 1 \<and> shape ?g ! i \<noteq> 1"
    by (rule exI [of _ 0]) simp
  then have err: "compute_epe_error ?p ?g = Inl ShapeMismatch"
    using epe_shape_error_iff [OF len] by blast
  have len': "length (shape ?a) = length (shape ?b)" and four: "length (shape ?a) = 4"
    by simp_all
  have ok: "\<not> (\<exists>i<length (shape ?a). shape ?a ! i \<noteq> shape ?b ! i \<and> shape ?a ! i \<noteq> 1
                 \<and> shape ?b ! i \<noteq> 1)"
    by (simp add: less_Suc_eq numeral_eq_Suc nth_Cons')
  have "\<exists>v. compute_epe_error ?a ?b = Inr v \<and> shape v = [] \<and> length (vals v) = 1"
    using epe_shape_error_iff [OF len'] four ok by blast
  then show ?thesis
    using len err by blast
qed

text \<open>
  The claim as stated fails: shapes \<open>[1, 2, 1, 1]\<close> and \<open>[2, 2, 1, 1]\<close> differ, and the
  function returns a value, the first tensor being broadcast along the batch dimension.
\<close>

theorem epe_broadcast_counterexample:
  "shape \<lparr>shape = [1, 2, 1, 1], vals = [Num 3, Num 4]\<rparr>
     \<noteq> shape \<lparr>shape = [2, 2, 1, 1], vals = [Num 0, Num 0, Num 0, Num 0]\<rparr>
   \<and> compute_epe_error \<lparr>shape = [1, 2, 1, 1], vals = [Num 3, Num 4]\<rparr>
        \<lparr>shape = [2, 2, 1, 1], vals = [Num 0, Num 0, Num 0, Num 0]\<rparr>
      = Inr \<lparr>shape = [], vals = [Num 5]\<rparr>"
  by (simp add: epe_eval upt_rec sqrt_25)

text \<open>
  Claim C7, as amended.  For flow tensors of the same shape \<open>[B, C, H, W]\<close> with at least
  one sample and at least one pixel, whose elements are numbers, the result is one
  non-negative number, and it is zero when the two tensors are equal elementwise.
\<close>

theorem epe_nonneg_and_zero:
  assumes sp: "shape pred_flow = [B, C, H, W]" and sg: "shape gt_flow = [B, C, H, W]"
    and pos: "0 < B" "0 < H" "0 < W"
    and vp: "vals pred_flow = map Num xs" and vg: "vals gt_flow = map Num ys"
    and lx: "length xs = B * C * H * W" and ly: "length ys = B * C * H * W"
  shows "\<exists>r. compute_epe_error pred_flow gt_flow = Inr \<lparr>shape = [], vals = [Num r]\<rparr>
             \<and> 0 \<le> r \<and> (xs = ys \<longrightarrow> r = 0)"
proof -
  define d where "d = (\<lambda>b k c. fl_sub (vals pred_flow ! ((b * C + c) * (H * W) + k))
                                      (vals gt_flow ! ((b * C + c) * (H * W) + k)))"
  define px where "px = (\<lambda>b k. l2_norm (map (d b k) [0..<C]))"
  define smp where "smp = (\<lambda>b. fl_mean (map (px b) [0..<H * W]))"
  have HW: "0 < H * W"
    using pos by simp
  have epe: "compute_epe_error pred_flow gt_flow =
      Inr \<lparr>shape = [], vals = [fl_mean (map smp [0..<B])]\<rparr>"
    using epe_equal_shapes [OF sp sg] vp vg lx ly
    by (simp add: smp_def px_def d_def)
  have d_num: "d b k c = Num (xs ! ((b * C + c) * (H * W) + k) - ys ! ((b * C + c) * (H * W) + k))"
    if "b < B" "k < H * W" "c < C" for b k c
  proof -
    have "(b * C + c) * (H * W) + k < B * C * (H * W)"
      using that by (intro idx_bound)
    then show ?thesis
      using vp vg lx ly by (simp add: d_def mult.assoc)
  qed
  have px_nonneg: "\<exists>r. 0 \<le> r \<and> px b k = Num r" if "b < B" "k < H * W" for b k
    unfolding px_def using d_num [OF that] by (intro l2_norm_nonneg) auto
  have smp_nonneg: "\<exists>r. 0 \<le> r \<and> smp b = Num r" if "b < B" for b
    unfolding smp_def using px_nonneg [OF that] HW by (intro fl_mean_nonneg) auto
  have "\<exists>r. 0 \<le> r \<and> fl_mean (map smp [0..<B]) = Num r"
    using smp_nonneg pos(1) by (intro fl_mean_nonneg) auto
  then obtain r where r: "0 \<le> r" "fl_mean (map smp [0..<B]) = Num r"
    by blast
  have "r = 0" if "xs = ys"
  proof -
    have px0: "px b k = Num 0" if "b < B" "k < H * W" for b k
      unfolding px_def using d_num [OF that] \<open>xs = ys\<close> by (intro l2_norm_zero) auto
    have smp0: "smp b = Num 0" if "b < B" for b
      unfolding smp_def using px0 [OF that] HW by (intro fl_mean_zero) auto
    have "fl_mean (map smp [0..<B]) = Num 0"
      using smp0 pos(1) by (intro fl_mean_zero) auto
    then show ?thesis
      using r(2) by simp
  qed
  then show ?thesis
    using epe r by auto
qed

theorem epe_nonneg_and_zero_witness:
  "(\<exists>r. compute_epe_error \<lparr>shape = [1, 2, 1, 1], vals = map Num [3, 4]\<rparr>
           \<lparr>shape = [1, 2, 1, 1], vals = map Num [0, 0]\<rparr> = Inr \<lparr>shape = [], vals = [Num r]\<rparr>
        \<and> 0 \<le> r)
   \<and> compute_epe_error \<lparr>shape = [1, 2, 1, 1], vals = map Num [3, 4]\<rparr>
           \<lparr>shape = [1, 2, 1, 1], vals = map Num [3, 4]\<rparr> = Inr \<lparr>shape = [], vals = [Num 0]\<rparr>"
proof -
  let ?p = "\<lparr>shape = [1, 2, 1, 1], vals = map Num [3, 4]\<rparr>"
  let ?g = "\<lparr>shape = [1, 2, 1, 1], vals = map Num [0, 0]\<rparr>"
  have a: "\<exists>r. compute_epe_error ?p ?g = Inr \<lparr>shape = [], vals = [Num r]\<rparr> \<and> 0 \<le> r
             \<and> ([3, 4] = [0, 0::real] \<longrightarrow> r = 0)"
    by (rule epe_nonneg_and_zero [where B = 1 and C = 2 and H = 1 and W = 1]) simp_all
  have b: "\<exists>r. compute_epe_error ?p ?p = Inr \<lparr>shape = [], vals = [Num r]\<rparr> \<and> 0 \<le> r
             \<and> ([3, 4] = [3, 4::real] \<longrightarrow> r = 0)"
    by (rule epe_nonneg_and_zero [where B = 1 and C = 2 and H = 1 and W = 1]) simp_all
  from a b show ?thesis
    by auto
qed

text \<open>
  The claim as stated fails for a batch of no samples: the two tensors of shape
  \<open>[0, 2, 480, 640]\<close> are equal, and the result is not-a-number, neither finite nor zero.
\<close>

theorem epe_empty_batch_counterexample:
  "compute_epe_error \<lparr>shape = [0, 2, 480, 640], vals = []\<rparr>
     \<lparr>shape = [0, 2, 480, 640], vals = []\<rparr> = Inr \<lparr>shape = [], vals = [NaN]\<rparr>"
  by (simp add: epe_eval)

section \<open>Seeding\<close>

text \<open>
  \<open>set_seed\<close> overwrites every generator and both switches, so nothing of the earlier
  random state survives it.
\<close>

lemma set_seed_independent: "set_seed L s e1 = set_seed L s e2"
  by (cases e1; cases e2) (simp add: set_seed_def split: sum.splits prod.splits)

lemma set_seed_accepted:
  assumes "0 \<le> s" and "s < 2 ^ 32"
    and "torch_manual_seed L s = Inr (g2, g3)" and "cuda_manual_seed_all L s = Inr g3'"
  shows "set_seed L s e =
    Inr \<lparr>py_random = random_seed L s, torch_cpu = g2, torch_cuda = g3',
         np_random = np_random_seed L s, cudnn_deterministic = True,
         cudnn_benchmark = False\<rparr>"
  using assms by (cases e) (simp add: set_seed_def np_seed_ok_def)

lemma set_seed_refused:
  assumes "\<not> (0 \<le> s \<and> s < 2 ^ 32)"
  shows "\<exists>err. set_seed L s e = Inl err"
  using assms by (auto simp: set_seed_def np_seed_ok_def split: sum.splits prod.splits)

lemma main_independent: "main C cfg (w\<lparr>rng := e1\<rparr>) = main C cfg (w\<lparr>rng := e2\<rparr>)"
proof -
  have "set_seed (seeding C) (seed cfg) e1 = set_seed (seeding C) (seed cfg) e2"
    by (rule set_seed_independent)
  then show ?thesis
    by (simp add: main_def Let_def split: sum.splits prod.splits)
qed

text \<open>The evaluation of a whole run of the small concrete system.\<close>

lemma sqrt_4_25: "sqrt (4 / 25) = 2 / 5"
  using real_sqrt_abs [of "2 / 5"] by (simp add: power2_eq_square)

lemma sqrt_9_25: "sqrt (9 / 25) = 3 / 5"
  using real_sqrt_abs [of "3 / 5"] by (simp add: power2_eq_square)

lemma sqrt_1_4: "sqrt (1 / 4) = 1 / 2"
  using real_sqrt_abs [of "1 / 2"] by (simp add: power2_eq_square)

lemmas loader_eval = loader_iter_def sample_order_def index_batches_def loader_len_def
  DataLoader_def train_loader_def test_loader_def block_def demo_collate_def stack_def
  demo_sample_def

lemmas train_eval = train_epoch_def train_step_def batch_get_def item_def py_div_def

lemmas fs_eval = save_then_reload_def save_checkpoint_def reload_checkpoint_def torch_load_def
  load_state_dict_def write_file_def path_exists_def makedirs_def save_path_def resolve_def
  dirname_def load_path_def file_name_def Let_def

lemmas main_eval = main_def set_seed_def np_seed_ok_def predict_and_save_def
  save_optical_flow_to_npy_def torch_cat0_def empty_tensor_def demo_seeding_def

lemma demo_main_stdout:
  "map_sum id stdout (main demo_collab demo_config demo_world)
   = Inr [OnEpoch 1, BatchLoss 0 (Num (2 / 5)), BatchLoss 1 (Num (3 / 5)),
          BatchLoss 2 (Num (1 / 2)), EpochLoss 1 (Num (1 / 2)),
          ModelSaved ''checkpoints/model_20250101000000.pth'', StartTest, TestDone]"
  by (simp add: main_eval train_eval loader_eval epe_eval fs_eval demo_collab_def
      demo_config_def demo_world_def demo_rng_def upt_rec sqrt_4_25 sqrt_9_25 sqrt_1_4)

lemma demo_main_submission:
  "map_sum id (\<lambda>w. files w (file_name @ ''.npy'')) (main demo_collab demo_config demo_world)
   = Inr (Some (NpyArray \<lparr>shape = [3, 2, 1, 1], vals = map Num [1, 2, 3, 4, 5, 6]\<rparr>))"
  by (simp add: main_eval train_eval loader_eval epe_eval fs_eval demo_collab_def
      demo_config_def demo_world_def demo_rng_def upt_rec sqrt_4_25 sqrt_9_25 sqrt_1_4)

text \<open>
  Claim C8, as amended.  Given a seed that the libraries accept, from \<open>0\<close> to \<open>2^32 - 1\<close>
  for the array library, \<open>set_seed\<close> seeds the generators of Python's \<open>random\<close>, of the
  tensor library on the processor and on the accelerators and of the array library, each
  with the state its library derives from the seed, and switches the accelerator backend
  to its deterministic algorithms.  For any other integer \<open>set_seed\<close> raises.  The result
  does not depend on the random state before the call, so two runs of \<open>main\<close> with the
  same configuration and environment, whose collaborators draw their randomness from
  these generators only, are equal whatever the random state they start from: the initial
  parameters, the shuffling orders and everything computed from them coincide.
\<close>

theorem seeding_determines_run:
  "set_seed L s e1 = set_seed L s e2
   \<and> (0 \<le> s \<and> s < 2 ^ 32 \<and> torch_manual_seed L s = Inr (g2, g3)
        \<and> cuda_manual_seed_all L s = Inr g3' \<longrightarrow>
        set_seed L s e1 =
          Inr \<lparr>py_random = random_seed L s, torch_cpu = g2, torch_cuda = g3',
               np_random = np_random_seed L s, cudnn_deterministic = True,
               cudnn_benchmark = False\<rparr>)
   \<and> (\<not> (0 \<le> s \<and> s < 2 ^ 32) \<longrightarrow> (\<exists>err. set_seed L s e1 = Inl err))
   \<and> main C cfg (w\<lparr>rng := e1\<rparr>) = main C cfg (w\<lparr>rng := e2\<rparr>)"
  using set_seed_independent [of L s e1 e2] set_seed_accepted [of s L g2 g3 g3' e1]
    set_seed_refused [of s L e1] main_independent
  by blast

theorem seeding_determines_run_witness:
  "set_seed demo_seeding 42 demo_rng
     = Inr \<lparr>py_random = 42, torch_cpu = 42, torch_cuda = 42, np_random = 42,
            cudnn_deterministic = True, cudnn_benchmark = False\<rparr>
   \<and> set_seed demo_seeding 42
        \<lparr>py_random = 1, torch_cpu = 2, torch_cuda = 3, np_random = 4,
         cudnn_deterministic = False, cudnn_benchmark = False\<rparr>
     = set_seed demo_seeding 42 demo_rng
   \<and> (\<exists>err. set_seed demo_seeding 4294967296 demo_rng = Inl err)
   \<and> map_sum id stdout
        (main demo_collab demo_config
           (demo_world\<lparr>rng := \<lparr>py_random = 1, torch_cpu = 2, torch_cuda = 3, np_random = 4,
                                 cudnn_deterministic = False, cudnn_benchmark = False\<rparr>\<rparr>))
     = Inr [OnEpoch 1, BatchLoss 0 (Num (2 / 5)), BatchLoss 1 (Num (3 / 5)),
            BatchLoss 2 (Num (1 / 2)), EpochLoss 1 (Num (1 / 2)),
            ModelSaved ''checkpoints/model_20250101000000.pth'', StartTest, TestDone]"
proof -
  let ?e = "\<lparr>py_random = 1::nat, torch_cpu = 2, torch_cuda = 3, np_random = 4,
            cudnn_deterministic = False, cudnn_benchmark = False\<rparr>"
  note t = seeding_determines_run [where L = demo_seeding and s = 42 and ?e1.0 = demo_rng
      and ?e2.0 = ?e and C = demo_collab and cfg = demo_config and w = demo_world
      and ?g2.0 = 42 and ?g3.0 = 42 and g3' = 42]
  note u = seeding_determines_run [where L = demo_seeding and s = 4294967296
      and ?e1.0 = demo_rng and ?e2.0 = ?e and C = demo_collab and cfg = demo_config
      and w = demo_world and ?g2.0 = 0 and ?g3.0 = 0 and g3' = 0]
  have acc: "(0::int) \<le> 42 \<and> (42::int) < 2 ^ 32
      \<and> torch_manual_seed demo_seeding 42 = Inr (42, 42)
      \<and> cuda_manual_seed_all demo_seeding 42 = Inr 42"
    by (simp add: demo_seeding_def)
  have "set_seed demo_seeding 42 demo_rng
     = Inr \<lparr>py_random = random_seed demo_seeding 42, torch_cpu = 42, torch_cuda = 42,
            np_random = np_random_seed demo_seeding 42, cudnn_deterministic = True,
            cudnn_benchmark = False\<rparr>"
    using t acc by blast
  then have a: "set_seed demo_seeding 42 demo_rng
     = Inr \<lparr>py_random = 42, torch_cpu = 42, torch_cuda = 42, np_random = 42,
            cudnn_deterministic = True, cudnn_benchmark = False\<rparr>"
    by (simp add: demo_seeding_def)
  have ind: "set_seed demo_seeding 42 ?e = set_seed demo_seeding 42 demo_rng"
    using t by simp
  have nr: "\<not> ((0::int) \<le> 4294967296 \<and> (4294967296::int) < 2 ^ 32)"
    by simp
  have r: "\<exists>err. set_seed demo_seeding 4294967296 demo_rng = Inl err"
    using u nr by blast
  have b: "demo_world\<lparr>rng := demo_rng\<rparr> = demo_world"
    by (simp add: demo_world_def)
  have "main demo_collab demo_config (demo_world\<lparr>rng := ?e\<rparr>)
        = main demo_collab demo_config demo_world"
    using t b by simp
  then have m: "map_sum id stdout (main demo_collab demo_config (demo_world\<lparr>rng := ?e\<rparr>))
     = Inr [OnEpoch 1, BatchLoss 0 (Num (2 / 5)), BatchLoss 1 (Num (3 / 5)),
            BatchLoss 2 (Num (1 / 2)), EpochLoss 1 (Num (1 / 2)),
            ModelSaved ''checkpoints/model_20250101000000.pth'', StartTest, TestDone]"
    using demo_main_stdout by simp
  show ?thesis
    using a ind r m by blast
qed

text \<open>
  The claim as stated fails for the integer seed \<open>-1\<close>: the array library refuses it and
  \<open>set_seed\<close> raises.
\<close>

theorem set_seed_refused_seed_counterexample:
  "set_seed demo_seeding (- 1) demo_rng = Inl SeedError"
  by (simp add: set_seed_def np_seed_ok_def demo_seeding_def)

section \<open>Data loaders\<close>

lemma length_sample_order [simp]:
  "length (fst (sample_order bs rp dl g)) = length (dataset dl)"
  by (simp add: sample_order_def Let_def)

lemma length_index_batches:
  "length (index_batches bs dl idx) =
     (if dl then length idx div bs else (length idx + bs - 1) div bs)"
  by (simp add: index_batches_def)

lemma length_loader_iter [simp]: "length (fst (loader_iter bs rp dl g)) = loader_len dl"
  by (simp add: loader_iter_def loader_len_def length_index_batches case_prod_beta)







section \<open>The training loop\<close>

lemma fl_add_assoc: "fl_add (fl_add a b) c = fl_add a (fl_add b c)"
  by (cases a; cases b; cases c) simp_all

lemma fl_add_NaN_left [simp]: "fl_add NaN x = NaN"
  by (cases x) simp_all

lemma fl_add_0_left [simp]: "fl_add (Num 0) x = x"
  by (cases x) simp_all

lemma foldl_fl_add: "foldl fl_add a ls = fl_add a (fl_sum ls)"
proof (induction ls arbitrary: a)
  case Nil
  show ?case by (simp add: fl_sum_def)
next
  case (Cons l ls)
  have "fl_sum (l # ls) = fl_add l (fl_sum ls)"
    by (simp add: fl_sum_def)
  then show ?case
    using Cons.IH [of "fl_add a l"] by (simp add: fl_add_assoc)
qed

lemma epe_errors:
  "compute_epe_error p g = Inl e \<Longrightarrow> e = ShapeMismatch \<or> e = DimOutOfRange"
  by (auto simp: compute_epe_error_def tensor_sub_def norm_p2_dim1_def mean_dim12_def
      mean_dim0_def Let_def split: sum.splits option.splits list.splits)

lemma train_step_result:
  assumes "train_step C ib st = Inr st'"
  shows "\<exists>l. printed st' = printed st @ [BatchLoss (fst ib) l]
            \<and> total_loss st' = fl_add (total_loss st) l"
  using assms by (auto simp: train_step_def split: sum.splits)

lemma train_step_not_zero_division: "train_step C ib st \<noteq> Inl ZeroDivisionError"
  by (auto simp: train_step_def batch_get_def item_def
      split: sum.splits option.splits list.splits dest: epe_errors)

lemma train_batches_result:
  assumes "train_batches C ibs st = Inr st'"
  shows "\<exists>ls. length ls = length ibs
            \<and> printed st' = printed st @ map2 BatchLoss (map fst ibs) ls
            \<and> total_loss st' = foldl fl_add (total_loss st) ls"
  using assms
proof (induction ibs arbitrary: st)
  case Nil
  then show ?case by simp
next
  case (Cons ib ibs)
  from Cons.prems obtain st1 where st1: "train_step C ib st = Inr st1"
      "train_batches C ibs st1 = Inr st'"
    by (auto split: sum.splits)
  obtain l where l: "printed st1 = printed st @ [BatchLoss (fst ib) l]"
      "total_loss st1 = fl_add (total_loss st) l"
    using train_step_result [OF st1(1)] by blast
  obtain ls where ls: "length ls = length ibs"
      "printed st' = printed st1 @ map2 BatchLoss (map fst ibs) ls"
      "total_loss st' = foldl fl_add (total_loss st1) ls"
    using Cons.IH [OF st1(2)] by blast
  show ?case
    using l ls by (intro exI [of _ "l # ls"]) simp
qed

lemma train_batches_not_zero_division: "train_batches C ibs st \<noteq> Inl ZeroDivisionError"
proof (induction ibs arbitrary: st)
  case Nil
  show ?case by simp
next
  case (Cons ib ibs)
  show ?case
    using Cons.IH train_step_not_zero_division [of C ib st] by (auto split: sum.splits)
qed

text \<open>
  Claim C6.  When an epoch completes, what it printed is the epoch header, one loss per
  batch of the training loader, numbered from zero, and the mean loss: the sum of these
  per-batch losses divided by the number of batches of the loader.  For the per-batch
  losses 0.4, 0.6 and 0.5 the reported mean is 0.5.
\<close>

theorem epoch_mean_loss:
  assumes "train_epoch C train_data epoch (st, g) = Inr (st', g')"
  shows "\<exists>losses. length losses = loader_len train_data
           \<and> 0 < loader_len train_data
           \<and> printed st' = printed st @ [OnEpoch (epoch + 1)]
               @ map2 BatchLoss [0..<length losses] losses
               @ [EpochLoss (epoch + 1)
                    (case fl_sum losses of
                       Num s \<Rightarrow> Num (s / real (loader_len train_data))
                     | NaN \<Rightarrow> NaN)]"
proof -
  define batches where "batches = fst (loader_iter (loader_base_seed C) (randperm C) train_data g)"
  define st0 where "st0 = st\<lparr>total_loss := Num 0, printed := printed st @ [OnEpoch (epoch + 1)]\<rparr>"
  have len: "length batches = loader_len train_data"
    by (simp add: batches_def)
  from assms obtain st1 m where
    st1: "train_batches C (zip [0..<length batches] batches) st0 = Inr st1"
    and m: "py_div (total_loss st1) (loader_len train_data) = Inr m"
    and st': "st' = st1\<lparr>printed := printed st1 @ [EpochLoss (epoch + 1) m]\<rparr>"
    by (auto simp: train_epoch_def Let_def batches_def st0_def split: sum.splits)
  obtain ls where ls: "length ls = length (zip [0..<length batches] batches)"
      "printed st1 = printed st0 @ map2 BatchLoss (map fst (zip [0..<length batches] batches)) ls"
      "total_loss st1 = foldl fl_add (total_loss st0) ls"
    using train_batches_result [OF st1] by blast
  have l1: "length ls = loader_len train_data"
    using ls(1) len by simp
  have idx: "map fst (zip [0..<length batches] batches) = [0..<length ls]"
    using l1 len by simp
  have tot: "total_loss st1 = fl_sum ls"
    using ls(3) by (simp add: st0_def foldl_fl_add)
  have pos: "0 < loader_len train_data"
    using m by (auto simp: py_div_def split: if_splits)
  have "m = (case fl_sum ls of Num s \<Rightarrow> Num (s / real (loader_len train_data)) | NaN \<Rightarrow> NaN)"
    using m pos by (simp add: py_div_def tot)
  then have "printed st' = printed st @ [OnEpoch (epoch + 1)]
               @ map2 BatchLoss [0..<length ls] ls
               @ [EpochLoss (epoch + 1)
                    (case fl_sum ls of
                       Num s \<Rightarrow> Num (s / real (loader_len train_data))
                     | NaN \<Rightarrow> NaN)]"
    using st' ls(2) idx by (simp add: st0_def)
  then show ?thesis
    using l1 pos by blast
qed

theorem epoch_mean_loss_witness:
  "train_epoch demo_collab
     \<lparr>dataset = [demo_sample (2 / 5) 0, demo_sample (3 / 5) 0, demo_sample 0 (1 / 2)],
      batch_size = 1, shuffle = False, collate_fn = demo_collate, drop_last = False\<rparr>
     0 (\<lparr>params = 1, optim = (), total_loss = Num 0, printed = []\<rparr>, 0)
   = Inr (\<lparr>params = 1, optim = (), total_loss = Num (3 / 2),
           printed = [OnEpoch 1, BatchLoss 0 (Num (2 / 5)), BatchLoss 1 (Num (3 / 5)),
                      BatchLoss 2 (Num (1 / 2)), EpochLoss 1 (Num (1 / 2))]\<rparr>, 1)
   \<and> loader_len
        \<lparr>dataset = [demo_sample (2 / 5) 0, demo_sample (3 / 5) 0, demo_sample 0 (1 / 2)],
         batch_size = 1, shuffle = False, collate_fn = demo_collate, drop_last = False\<rparr> = 3
   \<and> fl_sum [Num (2 / 5), Num (3 / 5), Num (1 / 2)] = Num (3 / 2)
   \<and> (\<exists>losses. length losses = 3
         \<and> [OnEpoch 1, BatchLoss 0 (Num (2 / 5)), BatchLoss 1 (Num (3 / 5)),
             BatchLoss 2 (Num (1 / 2)), EpochLoss 1 (Num (1 / 2))]
            = [] @ [OnEpoch (0 + 1)] @ map2 BatchLoss [0..<length losses] losses
              @ [EpochLoss (0 + 1)
                   (case fl_sum losses of Num s \<Rightarrow> Num (s / real (3::nat)) | NaN \<Rightarrow> NaN)])"
proof -
  let ?dl = "\<lparr>dataset = [demo_sample (2 / 5) 0, demo_sample (3 / 5) 0, demo_sample 0 (1 / 2)],
      batch_size = 1, shuffle = False, collate_fn = demo_collate, drop_last = False\<rparr>"
  let ?st = "\<lparr>params = 1::real, optim = (), total_loss = Num 0, printed = []\<rparr>"
  let ?st' = "\<lparr>params = 1::real, optim = (), total_loss = Num (3 / 2),
           printed = [OnEpoch 1, BatchLoss 0 (Num (2 / 5)), BatchLoss 1 (Num (3 / 5)),
                      BatchLoss 2 (Num (1 / 2)), EpochLoss 1 (Num (1 / 2))]\<rparr>"
  have run: "train_epoch demo_collab ?dl 0 (?st, 0) = Inr (?st', 1)"
    by (simp add: train_eval loader_eval epe_eval demo_collab_def upt_rec
        sqrt_4_25 sqrt_9_25 sqrt_1_4)
  have len: "loader_len ?dl = 3"
    by (simp add: loader_len_def)
  have total: "fl_sum [Num (2 / 5), Num (3 / 5), Num (1 / 2)] = Num (3 / 2)"
    by (simp add: fl_sum_def)
  obtain losses where L: "length losses = loader_len ?dl"
      "printed ?st' = printed ?st @ [OnEpoch (0 + 1)]
         @ map2 BatchLoss [0..<length losses] losses
         @ [EpochLoss (0 + 1)
              (case fl_sum losses of Num s \<Rightarrow> Num (s / real (loader_len ?dl)) | NaN \<Rightarrow> NaN)]"
    using epoch_mean_loss [OF run] by blast
  have p: "printed ?st' = [OnEpoch 1, BatchLoss 0 (Num (2 / 5)), BatchLoss 1 (Num (3 / 5)),
                      BatchLoss 2 (Num (1 / 2)), EpochLoss 1 (Num (1 / 2))]"
    and q: "printed ?st = []"
    by (rule train_state.simps)+
  note L' = L [unfolded len p q]
  show ?thesis
    using run len total L' by blast
qed

text \<open>
  Claim C9.  The division at the end of an epoch has no guard: an epoch fails with a
  division by zero exactly when the training loader has no batches, whatever the epoch
  and the state; with an empty loader the training loop therefore fails at its first
  epoch.
\<close>

theorem empty_loader_zero_division:
  "(train_epoch C train_data epoch sg = Inl ZeroDivisionError) = (loader_len train_data = 0)
   \<and> (loader_len train_data = 0 \<longrightarrow>
        train_epochs C train_data (epoch # rest) sg = Inl ZeroDivisionError)"
proof -
  define batches where "batches = fst (loader_iter (loader_base_seed C) (randperm C) train_data (snd sg))"
  have len: "length batches = loader_len train_data"
    by (simp add: batches_def)
  have a: "train_epoch C train_data epoch sg = Inl ZeroDivisionError"
    if "loader_len train_data = 0"
  proof -
    have "batches = []"
      using len that by simp
    then show ?thesis
      using that by (simp add: train_epoch_def Let_def batches_def [symmetric] py_div_def)
  qed
  have b: "train_epoch C train_data epoch sg \<noteq> Inl ZeroDivisionError"
    if "loader_len train_data \<noteq> 0"
    using that train_batches_not_zero_division
    by (auto simp: train_epoch_def Let_def py_div_def split: sum.splits)
  show ?thesis
    using a b by auto
qed

theorem empty_loader_zero_division_witness:
  "loader_len \<lparr>dataset = [] :: (tensor \<times> tensor) list, batch_size = 1, shuffle = False,
               collate_fn = demo_collate, drop_last = False\<rparr> = 0
   \<and> train_epoch demo_collab
        \<lparr>dataset = [], batch_size = 1, shuffle = False, collate_fn = demo_collate,
         drop_last = False\<rparr>
        0 (\<lparr>params = 1, optim = (), total_loss = Num 0, printed = []\<rparr>, 0)
      = Inl ZeroDivisionError
   \<and> train_epochs demo_collab
        \<lparr>dataset = [], batch_size = 1, shuffle = False, collate_fn = demo_collate,
         drop_last = False\<rparr>
        [0, 1, 2] (\<lparr>params = 1, optim = (), total_loss = Num 0, printed = []\<rparr>, 0)
      = Inl ZeroDivisionError"
proof -
  let ?dl = "\<lparr>dataset = [] :: (tensor \<times> tensor) list, batch_size = 1, shuffle = False,
               collate_fn = demo_collate, drop_last = False\<rparr>"
  have len: "loader_len ?dl = 0"
    by (simp add: loader_len_def)
  show ?thesis
    using empty_loader_zero_division
      [of demo_collab ?dl 0 "(\<lparr>params = 1, optim = (), total_loss = Num 0, printed = []\<rparr>, 0)"
          "[1, 2]"] len
    by simp
qed

section \<open>The checkpoint\<close>

lemma resolve_absolute [simp]: "resolve wd (CHR ''/'' # rest) = CHR ''/'' # rest"
  by (simp add: resolve_def)

lemma resolve_file_name [simp]: "resolve wd (file_name @ ''.npy'') = file_name @ ''.npy''"
  by (simp add: file_name_def resolve_def)

lemma resolve_checkpoints [simp]: "resolve wd ''checkpoints'' = wd @ ''/checkpoints''"
  by (simp add: resolve_def)

lemma resolve_save_path [simp]:
  "resolve (cwd w) (save_path w) = cwd w @ ''/checkpoints/model_'' @ clock w @ ''.pth''"
  by (simp add: resolve_def save_path_def)

lemma resolve_load_path [simp]: "resolve wd load_path = load_path"
  by (simp add: resolve_def load_path_def)

lemma dirname_append_file:
  assumes "CHR ''/'' \<notin> set name"
  shows "dirname (d @ ''/'' @ name) = d"
proof -
  have "dropWhile (\<lambda>c. c \<noteq> CHR ''/'') (rev name @ CHR ''/'' # rev d) = CHR ''/'' # rev d"
    using assms by (subst dropWhile_append2) auto
  then show ?thesis
    by (simp add: dirname_def)
qed

lemma dirname_save_path:
  assumes "CHR ''/'' \<notin> set (clock w)"
  shows "dirname (cwd w @ ''/checkpoints/model_'' @ clock w @ ''.pth'') = cwd w @ ''/checkpoints''"
proof -
  have "CHR ''/'' \<notin> set (''model_'' @ clock w @ ''.pth'')"
    using assms by simp
  then have "dirname ((cwd w @ ''/checkpoints'') @ ''/'' @ (''model_'' @ clock w @ ''.pth''))
             = cwd w @ ''/checkpoints''"
    by (rule dirname_append_file)
  then show ?thesis by simp
qed

lemma save_checkpoint_files:
  assumes "CHR ''/'' \<notin> set (clock w)"
    and "cwd w @ ''/checkpoints'' \<in> dirs w \<or> files w (cwd w @ ''/checkpoints'') = None"
  shows "\<exists>w1. save_checkpoint w trained = Inr w1
           \<and> files w1 = (files w)(cwd w @ ''/checkpoints/model_'' @ clock w @ ''.pth''
                                    \<mapsto> Checkpoint trained)
           \<and> cwd w1 = cwd w"
  using assms dirname_save_path [OF assms(1)]
  by (auto simp: save_checkpoint_def path_exists_def makedirs_def write_file_def Let_def
      save_path_def resolve_def)

text \<open>
  Claim C1, as amended.  The checkpoint is written once, to
  \<open>checkpoints/model_<time>.pth\<close> under the working directory, and the model is then
  restored from the fixed path \<open>load_path\<close>, whatever was written.  The parameters the
  inference pass uses are the saved ones when the written file is the file at the fixed
  path; otherwise they are those of the checkpoint already stored at the fixed path, and
  the run fails when there is none.
\<close>

theorem checkpoint_reload_fixed_path:
  assumes "CHR ''/'' \<notin> set (clock w)"
    and "cwd w @ ''/checkpoints'' \<in> dirs w \<or> files w (cwd w @ ''/checkpoints'') = None"
  shows "(\<exists>w1. save_checkpoint w trained = Inr w1
            \<and> files w1 (cwd w @ ''/checkpoints/model_'' @ clock w @ ''.pth'')
                = Some (Checkpoint trained))
         \<and> (cwd w @ ''/checkpoints/model_'' @ clock w @ ''.pth'' = load_path \<longrightarrow>
              map_sum id snd (save_then_reload C w trained)
              = load_state_dict (strict_match C) trained trained)
         \<and> (cwd w @ ''/checkpoints/model_'' @ clock w @ ''.pth'' \<noteq> load_path \<longrightarrow>
              map_sum id snd (save_then_reload C w trained)
              = (case files w load_path of
                   None \<Rightarrow> Inl FileNotFoundError
                 | Some (Checkpoint sd) \<Rightarrow> load_state_dict (strict_match C) trained sd
                 | Some (NpyArray a) \<Rightarrow> Inl UnpicklingError))"
proof -
  obtain w1 where w1: "save_checkpoint w trained = Inr w1"
      "files w1 = (files w)(cwd w @ ''/checkpoints/model_'' @ clock w @ ''.pth''
                                    \<mapsto> Checkpoint trained)"
    using save_checkpoint_files [OF assms] by blast
  have "map_sum id snd (save_then_reload C w trained)
        = (case files w1 load_path of
             None \<Rightarrow> Inl FileNotFoundError
           | Some (Checkpoint sd) \<Rightarrow> load_state_dict (strict_match C) trained sd
           | Some (NpyArray a) \<Rightarrow> Inl UnpicklingError)"
    using w1(1)
    by (simp add: save_then_reload_def reload_checkpoint_def torch_load_def
        split: option.splits stored.splits sum.splits)
  then show ?thesis
    using w1 by auto
qed

theorem checkpoint_reload_fixed_path_witness:
  "CHR ''/'' \<notin> set (clock demo_world)
   \<and> files demo_world (cwd demo_world @ ''/checkpoints'') = None
   \<and> cwd demo_world @ ''/checkpoints/model_'' @ clock demo_world @ ''.pth'' \<noteq> load_path
   \<and> map_sum id snd (save_then_reload demo_collab demo_world 2) = Inr 7
   \<and> cwd (demo_world\<lparr>clock := ''20240717034219''\<rparr>) @ ''/checkpoints/model_''
        @ clock (demo_world\<lparr>clock := ''20240717034219''\<rparr>) @ ''.pth'' = load_path
   \<and> map_sum id snd (save_then_reload demo_collab (demo_world\<lparr>clock := ''20240717034219''\<rparr>) 2)
       = Inr 2"
proof -
  let ?w = "demo_world\<lparr>clock := ''20240717034219''\<rparr>"
  have a: "CHR ''/'' \<notin> set (clock demo_world)" and a': "CHR ''/'' \<notin> set (clock ?w)"
    by (simp_all add: demo_world_def)
  have b: "cwd demo_world @ ''/checkpoints'' \<in> dirs demo_world
           \<or> files demo_world (cwd demo_world @ ''/checkpoints'') = None"
    and b': "cwd ?w @ ''/checkpoints'' \<in> dirs ?w \<or> files ?w (cwd ?w @ ''/checkpoints'') = None"
    by (simp_all add: demo_world_def load_path_def)
  have c: "cwd demo_world @ ''/checkpoints/model_'' @ clock demo_world @ ''.pth'' \<noteq> load_path"
    and c': "cwd ?w @ ''/checkpoints/model_'' @ clock ?w @ ''.pth'' = load_path"
    by (simp_all add: demo_world_def load_path_def)
  have d: "files demo_world load_path = Some (Checkpoint 7)"
    by (simp add: demo_world_def)
  have e: "strict_match demo_collab = (\<lambda>own sd. True)"
    by (simp add: demo_collab_def)
  have "map_sum id snd (save_then_reload demo_collab demo_world 2) = Inr 7"
    using checkpoint_reload_fixed_path [OF a b, of 2 demo_collab] c d e
    by (simp add: load_state_dict_def)
  moreover have "map_sum id snd (save_then_reload demo_collab ?w 2) = Inr 2"
    using checkpoint_reload_fixed_path [OF a' b', of 2 demo_collab] c' e
    by (simp add: load_state_dict_def)
  ultimately show ?thesis
    using a b c c' by (simp add: demo_world_def load_path_def)
qed

text \<open>
  The claim as stated fails: with the clock at 2025-01-01 00:00:00 the parameters \<open>2\<close> are
  saved to \<open>model_20250101000000.pth\<close>, and the model restored for inference carries the
  parameters \<open>7\<close> of the older checkpoint at the fixed path.
\<close>

theorem checkpoint_reload_counterexample:
  "map_sum id (\<lambda>r. files (fst r)
       ''/content/dl_lecture_competition_pub/checkpoints/model_20250101000000.pth'')
     (save_then_reload demo_collab demo_world 2) = Inr (Some (Checkpoint 2))
   \<and> map_sum id snd (save_then_reload demo_collab demo_world 2) = Inr 7"
  by (simp add: fs_eval demo_world_def demo_collab_def)

section \<open>The inference pass\<close>

lemma torch_cat0_empty_left: "shape t \<noteq> [] \<Longrightarrow> torch_cat0 empty_tensor t = Inr t"
  by (simp add: torch_cat0_def empty_tensor_def)

lemma torch_cat0_rows:
  assumes "wf_tensor a" and "wf_tensor b" and "shape a = m # rest" and "shape b = n # rest"
  shows "\<exists>c. torch_cat0 a b = Inr c \<and> wf_tensor c \<and> shape c = (m + n) # rest
             \<and> vals c = vals a @ vals b"
proof (cases "shape a = [0]")
  case True
  then have "vals a = []" "m = 0" "rest = []"
    using assms(1,3) by (auto simp: wf_tensor_def)
  then show ?thesis
    using assms(2,4) True by (simp add: torch_cat0_def)
next
  case False
  show ?thesis
  proof (cases "shape b = [0]")
    case True
    then have "vals b = []" "n = 0" "rest = []"
      using assms(2,4) by (auto simp: wf_tensor_def)
    then show ?thesis
      using assms(1,3) True False by (simp add: torch_cat0_def)
  next
    case nb: False
    show ?thesis
      using assms False nb by (auto simp: torch_cat0_def wf_tensor_def algebra_simps)
  qed
qed

lemma predict_batches_acc:
  assumes "list_all2 (\<lambda>b t. \<exists>ev. b ''event_volume'' = Some ev \<and> fst (forward C False p ev) = t)
             test_batches preds"
    and "\<forall>t\<in>set preds. wf_tensor t \<and> (\<exists>n. shape t = n # rest)"
    and "wf_tensor flow" and "shape flow = m # rest"
  shows "\<exists>out. predict_batches C p test_batches flow = Inr out
           \<and> shape out = (m + sum_list (map rows preds)) # rest
           \<and> vals out = vals flow @ concat (map vals preds)"
  using assms
proof (induction test_batches preds arbitrary: flow m rule: list_all2_induct)
  case Nil
  then show ?case by simp
next
  case (Cons b bs t ts)
  from Cons.hyps(1) obtain ev where ev: "b ''event_volume'' = Some ev" "fst (forward C False p ev) = t"
    by blast
  from Cons.prems(1) obtain n where t: "wf_tensor t" "shape t = n # rest"
    by auto
  obtain c where c: "torch_cat0 flow t = Inr c" "wf_tensor c" "shape c = (m + n) # rest"
      "vals c = vals flow @ vals t"
    using torch_cat0_rows [OF Cons.prems(2) t(1) Cons.prems(3) t(2)] by blast
  have "\<exists>out. predict_batches C p bs c = Inr out
           \<and> shape out = ((m + n) + sum_list (map rows ts)) # rest
           \<and> vals out = vals c @ concat (map vals ts)"
    using Cons.prems(1) c by (intro Cons.IH) auto
  moreover have "rows t = n"
    using t(2) by (simp add: rows_def)
  ultimately show ?case
    using ev c by (simp add: batch_get_def add.assoc)
qed

lemma predict_batches_all:
  assumes "list_all2 (\<lambda>b t. \<exists>ev. b ''event_volume'' = Some ev \<and> fst (forward C False p ev) = t)
             test_batches preds"
    and "\<forall>t\<in>set preds. wf_tensor t \<and> (\<exists>n. shape t = n # rest)"
    and "test_batches \<noteq> []"
  shows "\<exists>out. predict_batches C p test_batches empty_tensor = Inr out
           \<and> shape out = sum_list (map rows preds) # rest
           \<and> vals out = concat (map vals preds)"
proof -
  from assms(1,3) obtain b bs t ts where
    split: "test_batches = b # bs" "preds = t # ts"
    and first: "\<exists>ev. b ''event_volume'' = Some ev \<and> fst (forward C False p ev) = t"
    and rest: "list_all2 (\<lambda>b t. \<exists>ev. b ''event_volume'' = Some ev \<and> fst (forward C False p ev) = t) bs ts"
    by (cases test_batches; cases preds) auto
  from assms(2) split obtain n where t: "wf_tensor t" "shape t = n # rest"
    by auto
  have "\<exists>out. predict_batches C p bs t = Inr out
           \<and> shape out = (n + sum_list (map rows ts)) # rest
           \<and> vals out = vals t @ concat (map vals ts)"
    using assms(2) split t by (intro predict_batches_acc [OF rest]) auto
  moreover have "rows t = n"
    using t(2) by (simp add: rows_def)
  moreover have "torch_cat0 empty_tensor t = Inr t"
    using t(2) by (intro torch_cat0_empty_left) simp
  ultimately show ?thesis
    using first split by (auto simp: batch_get_def)
qed

lemma length_concat_take:
  assumes "\<forall>t\<in>set preds. length (vals t) = rows t * R"
  shows "length (concat (take j (map vals preds))) = sum_list (map rows (take j preds)) * R"
proof -
  have "map length (take j (map vals preds)) = map (\<lambda>t. rows t * R) (take j preds)"
    using assms by (auto simp: take_map dest: in_set_takeD)
  then show ?thesis
    by (simp add: length_concat sum_list_mult_const)
qed

lemma block_concat:
  assumes "\<forall>t\<in>set preds. length (vals t) = rows t * R" and "j < length preds"
    and "i < rows (preds ! j)"
  shows "block (sum_list (map rows (take j preds)) + i) R (concat (map vals preds))
         = block i R (vals (preds ! j))"
proof -
  let ?xss = "map vals preds"
  have "concat ?xss = concat (take j ?xss) @ concat (drop j ?xss)"
    by (metis append_take_drop_id concat_append)
  moreover have "drop j ?xss = ?xss ! j # drop (Suc j) ?xss"
    using assms(2) by (intro Cons_nth_drop_Suc [symmetric]) simp
  moreover have "?xss ! j = vals (preds ! j)"
    using assms(2) by simp
  ultimately have c: "concat ?xss = concat (take j ?xss) @ vals (preds ! j) @ concat (drop (Suc j) ?xss)"
    by simp
  have len: "length (concat (take j ?xss)) = sum_list (map rows (take j preds)) * R"
    by (rule length_concat_take [OF assms(1)])
  have lj: "length (vals (preds ! j)) = rows (preds ! j) * R"
    using assms(1,2) by simp
  have "Suc i * R \<le> rows (preds ! j) * R"
    using assms(3) by (intro mult_le_mono1) simp
  then have fits: "i * R + R \<le> length (vals (preds ! j))"
    using lj by simp
  have "drop ((sum_list (map rows (take j preds)) + i) * R) (concat ?xss)
        = drop (i * R) (vals (preds ! j) @ concat (drop (Suc j) ?xss))"
    by (subst c) (simp add: len algebra_simps)
  also have "\<dots> = drop (i * R) (vals (preds ! j)) @ concat (drop (Suc j) ?xss)"
    using fits by simp
  finally show ?thesis
    using fits by (simp add: block_def)
qed

text \<open>
  Claim C4, as amended.  For a non-empty sequence of test batches whose predictions are
  well-formed tensors that agree in every dimension after the first, the result of the
  inference pass is the concatenation of the predictions along the batch dimension in the
  order of the batches: its shape is the total number of rows followed by the common
  dimensions (\<open>[N, 2, 480, 640]\<close> for flow predictions), and row \<open>i\<close> of the prediction of
  batch \<open>j\<close> is the row of the result at \<open>i\<close> plus the number of rows of the earlier batches.
  For batches of 2 and 3 samples the result has 5 rows, rows 0 and 1 from the first batch
  and rows 2 to 4 from the second.
\<close>

theorem predict_concatenates:
  assumes "list_all2 (\<lambda>b t. \<exists>ev. b ''event_volume'' = Some ev \<and> fst (forward C False p ev) = t)
             test_batches preds"
    and "\<forall>t\<in>set preds. wf_tensor t \<and> (\<exists>n. shape t = n # rest)"
    and "test_batches \<noteq> []"
  shows "\<exists>flow. predict_batches C p test_batches empty_tensor = Inr flow
           \<and> shape flow = sum_list (map rows preds) # rest
           \<and> vals flow = concat (map vals preds)
           \<and> (\<forall>j<length preds. \<forall>i<rows (preds ! j).
                 row flow (sum_list (map rows (take j preds)) + i) = row (preds ! j) i)"
proof -
  obtain flow where flow: "predict_batches C p test_batches empty_tensor = Inr flow"
      "shape flow = sum_list (map rows preds) # rest" "vals flow = concat (map vals preds)"
    using predict_batches_all [OF assms] by blast
  have lens: "\<forall>t\<in>set preds. length (vals t) = rows t * prod_list rest"
    using assms(2) by (auto simp: wf_tensor_def rows_def)
  have "row flow (sum_list (map rows (take j preds)) + i) = row (preds ! j) i"
    if "j < length preds" "i < rows (preds ! j)" for j i
  proof -
    have "tl (shape (preds ! j)) = rest"
      using assms(2) that(1) by (metis list.sel(3) nth_mem)
    then show ?thesis
      using flow(2,3) block_concat [OF lens that] by (simp add: row_def)
  qed
  then show ?thesis
    using flow by blast
qed

theorem predict_concatenates_witness:
  "predict_batches demo_collab 1
     [[''event_volume'' \<mapsto> \<lparr>shape = [2, 2, 1, 1], vals = map Num [1, 2, 3, 4]\<rparr>],
      [''event_volume'' \<mapsto> \<lparr>shape = [3, 2, 1, 1], vals = map Num [5, 6, 7, 8, 9, 10]\<rparr>]]
     empty_tensor
   = Inr \<lparr>shape = [5, 2, 1, 1], vals = map Num [1, 2, 3, 4, 5, 6, 7, 8, 9, 10]\<rparr>
   \<and> row \<lparr>shape = [5, 2, 1, 1], vals = map Num [1, 2, 3, 4, 5, 6, 7, 8, 9, 10]\<rparr> 0
       = row \<lparr>shape = [2, 2, 1, 1], vals = map Num [1, 2, 3, 4]\<rparr> 0
   \<and> row \<lparr>shape = [5, 2, 1, 1], vals = map Num [1, 2, 3, 4, 5, 6, 7, 8, 9, 10]\<rparr> 1
       = row \<lparr>shape = [2, 2, 1, 1], vals = map Num [1, 2, 3, 4]\<rparr> 1
   \<and> row \<lparr>shape = [5, 2, 1, 1], vals = map Num [1, 2, 3, 4, 5, 6, 7, 8, 9, 10]\<rparr> 2
       = row \<lparr>shape = [3, 2, 1, 1], vals = map Num [5, 6, 7, 8, 9, 10]\<rparr> 0
   \<and> row \<lparr>shape = [5, 2, 1, 1], vals = map Num [1, 2, 3, 4, 5, 6, 7, 8, 9, 10]\<rparr> 3
       = row \<lparr>shape = [3, 2, 1, 1], vals = map Num [5, 6, 7, 8, 9, 10]\<rparr> 1
   \<and> row \<lparr>shape = [5, 2, 1, 1], vals = map Num [1, 2, 3, 4, 5, 6, 7, 8, 9, 10]\<rparr> 4
       = row \<lparr>shape = [3, 2, 1, 1], vals = map Num [5, 6, 7, 8, 9, 10]\<rparr> 2"
proof -
  let ?t1 = "\<lparr>shape = [2, 2, 1, 1], vals = map Num [1, 2, 3, 4]\<rparr>"
  let ?t2 = "\<lparr>shape = [3, 2, 1, 1], vals = map Num [5, 6, 7, 8, 9, 10]\<rparr>"
  let ?bs = "[[''event_volume'' \<mapsto> ?t1], [''event_volume'' \<mapsto> ?t2]]"
  let ?out = "\<lparr>shape = [5, 2, 1, 1], vals = map Num [1, 2, 3, 4, 5, 6, 7, 8, 9, 10]\<rparr>"
  have a: "list_all2 (\<lambda>b t. \<exists>ev. b ''event_volume'' = Some ev
             \<and> fst (forward demo_collab False 1 ev) = t) ?bs [?t1, ?t2]"
    by (simp add: demo_collab_def)
  have b: "\<forall>t\<in>set [?t1, ?t2]. wf_tensor t \<and> (\<exists>n. shape t = n # [2, 1, 1])"
    by (simp add: wf_tensor_def)
  have c: "?bs \<noteq> []"
    by simp
  obtain flow where flow: "predict_batches demo_collab 1 ?bs empty_tensor = Inr flow"
      "shape flow = sum_list (map rows [?t1, ?t2]) # [2, 1, 1]"
      "vals flow = concat (map vals [?t1, ?t2])"
      "\<forall>j<length [?t1, ?t2]. \<forall>i<rows ([?t1, ?t2] ! j).
          row flow (sum_list (map rows (take j [?t1, ?t2])) + i) = row ([?t1, ?t2] ! j) i"
    using predict_concatenates [OF a b c] by blast
  have eq: "flow = ?out"
    using flow(2,3) by (simp add: rows_def)
  have r0: "row flow 0 = row ?t1 0" using flow(4) [rule_format, of 0 0] by (simp add: rows_def)
  have r1: "row flow 1 = row ?t1 1" using flow(4) [rule_format, of 0 1] by (simp add: rows_def)
  have r2: "row flow 2 = row ?t2 0" using flow(4) [rule_format, of 1 0] by (simp add: rows_def)
  have r3: "row flow 3 = row ?t2 1" using flow(4) [rule_format, of 1 1] by (simp add: rows_def)
  have r4: "row flow 4 = row ?t2 2" using flow(4) [rule_format, of 1 2] by (simp add: rows_def)
  show ?thesis
    using flow(1) r0 r1 r2 r3 r4 unfolding eq by simp
qed

text \<open>
  The claim as stated fails for the empty sequence of batches: the result is the initial
  tensor of shape \<open>[0]\<close>, not a tensor of shape \<open>[0, 2, 480, 640]\<close>.
\<close>

theorem predict_no_batches_counterexample:
  "predict_batches demo_collab 1 [] empty_tensor = Inr \<lparr>shape = [0], vals = []\<rparr>
   \<and> shape \<lparr>shape = [0], vals = []\<rparr> \<noteq> [0, 2, 480, 640]"
  by (simp add: empty_tensor_def)

text \<open>
  Claim C10.  When the test loader yields no batches, the inference pass leaves the buffer
  as the initial one-dimensional empty tensor, and the submission file that is written
  holds an array of shape \<open>[0]\<close>, not \<open>[0, 2, 480, 640]\<close>.
\<close>

theorem empty_test_loader_submission:
  assumes "dirname (file_name @ ''.npy'') \<in> dirs w"
  shows "\<exists>w'. predict_and_save C w p [] = Inr w'
           \<and> files w' (file_name @ ''.npy'') = Some (NpyArray \<lparr>shape = [0], vals = []\<rparr>)
           \<and> shape \<lparr>shape = [0], vals = []\<rparr> \<noteq> [0, 2, 480, 640]"
  using assms
  by (simp add: predict_and_save_def save_optical_flow_to_npy_def write_file_def empty_tensor_def)

theorem empty_test_loader_submission_witness:
  "dirname (file_name @ ''.npy'') \<in> dirs demo_world
   \<and> (\<exists>w'. predict_and_save demo_collab demo_world 1 [] = Inr w'
           \<and> files w' (file_name @ ''.npy'') = Some (NpyArray \<lparr>shape = [0], vals = []\<rparr>))"
proof -
  have d: "dirname (file_name @ ''.npy'') \<in> dirs demo_world"
    by (simp add: demo_world_def)
  show ?thesis
    using empty_test_loader_submission [OF d, of demo_collab 1] d by blast
qed

end
